theory Spec2Isabelle
  imports Complex_Main "HOL-Library.Sublist" "HOL-Library.AList"
begin

unbundle bit_operations_syntax

section \<open>JavaScript values and text\<close>

text \<open>
  The adapter is a TypeScript program (\<^verbatim>\<open>src/index.ts\<close>). Strings are modelled as
  \<^typ>\<open>string\<close>, a list of bytes: a text is taken in its UTF-8 encoding. Numbers that
  arrive as tool arguments are JSON numbers and are modelled as rationals. A value that
  may be \<^verbatim>\<open>undefined\<close> is an \<^typ>\<open>'a option\<close>.
\<close>

datatype jsval =
    JUndefined
  | JNull
  | JBool bool
  | JNum rat
  | JStr string
  | JArr "jsval list"
  | JObj "(string \<times> jsval) list"

text \<open>
  A thrown value. Everything the program throws itself is an \<^verbatim>\<open>Error\<close> with a
  message; the handlers' \<^verbatim>\<open>catch\<close> also provides for a value that is not one.
\<close>

datatype thrown = Error string | NonError

text \<open>Truthiness of an optional string: \<^verbatim>\<open>!v\<close> holds for \<^verbatim>\<open>undefined\<close> and for \<^verbatim>\<open>""\<close>.\<close>

definition falsy :: "string option \<Rightarrow> bool" where
  "falsy v = (case v of None \<Rightarrow> True | Some s \<Rightarrow> s = [])"

text \<open>\<^verbatim>\<open>a || b\<close> for a string \<^verbatim>\<open>a\<close> and an optional string \<^verbatim>\<open>b\<close>.\<close>

definition or_else :: "string \<Rightarrow> string option \<Rightarrow> string option" where
  "or_else a b = (if a \<noteq> [] then Some a else b)"

text \<open>An optional string as a property value.\<close>

definition js_string :: "string option \<Rightarrow> jsval" where
  "js_string v = (case v of None \<Rightarrow> JUndefined | Some s \<Rightarrow> JStr s)"

text \<open>Decimal rendering of a non-negative integer, as a template literal renders it.\<close>

definition digit_char :: "nat \<Rightarrow> char" where
  "digit_char n = char_of (48 + n)"

fun show_nat :: "nat \<Rightarrow> string" where
  "show_nat n = (if n < 10 then [digit_char n] else show_nat (n div 10) @ [digit_char (n mod 10)])"

declare show_nat.simps [simp del]

section \<open>The MD5 digest\<close>

text \<open>
  Modelled from the spec: \<^verbatim>\<open>Md5.hashStr\<close> of the package \<^verbatim>\<open>ts-md5\<close> is imported by
  \<^verbatim>\<open>src/index.ts\<close> and is not part of the sources. The spec calls its result the
  fixed-length lowercase hexadecimal MD5 digest of the text; the definitions below are
  the MD5 algorithm (RFC 1321) over the bytes of the text, rendered as 32 lowercase
  hexadecimal characters. The 32-bit words are natural numbers below \<open>2 ^ 32\<close>, with the
  wrap-around written out (\<open>u32\<close>).
\<close>

definition md5_shifts :: "nat list" where
  "md5_shifts =
     [7, 12, 17, 22, 7, 12, 17, 22, 7, 12, 17, 22, 7, 12, 17, 22,
      5, 9, 14, 20, 5, 9, 14, 20, 5, 9, 14, 20, 5, 9, 14, 20,
      4, 11, 16, 23, 4, 11, 16, 23, 4, 11, 16, 23, 4, 11, 16, 23,
      6, 10, 15, 21, 6, 10, 15, 21, 6, 10, 15, 21, 6, 10, 15, 21]"

definition md5_sines :: "nat list" where
  "md5_sines =
     [0xd76aa478, 0xe8c7b756, 0x242070db, 0xc1bdceee, 0xf57c0faf, 0x4787c62a, 0xa8304613, 0xfd469501, 0x698098d8, 0x8b44f7af, 0xffff5bb1, 0x895cd7be, 0x6b901122, 0xfd987193, 0xa679438e, 0x49b40821, 0xf61e2562, 0xc040b340, 0x265e5a51, 0xe9b6c7aa, 0xd62f105d, 0x02441453, 0xd8a1e681, 0xe7d3fbc8, 0x21e1cde6, 0xc33707d6, 0xf4d50d87, 0x455a14ed, 0xa9e3e905, 0xfcefa3f8, 0x676f02d9, 0x8d2a4c8a, 0xfffa3942, 0x8771f681, 0x6d9d6122, 0xfde5380c, 0xa4beea44, 0x4bdecfa9, 0xf6bb4b60, 0xbebfbc70, 0x289b7ec6, 0xeaa127fa, 0xd4ef3085, 0x04881d05, 0xd9d4d039, 0xe6db99e5, 0x1fa27cf8, 0xc4ac5665, 0xf4292244, 0x432aff97, 0xab9423a7, 0xfc93a039, 0x655b59c3, 0x8f0ccc92, 0xffeff47d, 0x85845dd1, 0x6fa87e4f, 0xfe2ce6e0, 0xa3014314, 0x4e0811a1, 0xf7537e82, 0xbd3af235, 0x2ad7d2bb, 0xeb86d391]"

type_synonym md5_state = "nat \<times> nat \<times> nat \<times> nat"

definition md5_init :: md5_state where
  "md5_init = (0x67452301, 0xefcdab89, 0x98badcfe, 0x10325476)"

text \<open>Reduction to 32 bits, complement and left rotation of a 32-bit word.\<close>

definition u32 :: "nat \<Rightarrow> nat" where
  "u32 x = x mod 4294967296"

definition not32 :: "nat \<Rightarrow> nat" where
  "not32 x = 4294967295 - u32 x"

definition rotl32 :: "nat \<Rightarrow> nat \<Rightarrow> nat" where
  "rotl32 s x = u32 (u32 x * 2 ^ s) + u32 x div 2 ^ (32 - s)"

definition md5_f :: "nat \<Rightarrow> nat \<Rightarrow> nat \<Rightarrow> nat \<Rightarrow> nat" where
  "md5_f i b c d = (if i < 16 then (b AND c) OR (not32 b AND d)
                 else if i < 32 then (d AND b) OR (not32 d AND c)
                 else if i < 48 then b XOR c XOR d
                 else c XOR (b OR not32 d))"

definition md5_g :: "nat \<Rightarrow> nat" where
  "md5_g i = (if i < 16 then i
                 else if i < 32 then (5 * i + 1) mod 16
                 else if i < 48 then (3 * i + 5) mod 16
                 else (7 * i) mod 16)"

fun md5_round :: "nat list \<Rightarrow> md5_state \<Rightarrow> nat \<Rightarrow> md5_state" where
  "md5_round m (a, b, c, d) i =
     (d, u32 (b + rotl32 (md5_shifts ! i) (u32 (a + md5_f i b c d + md5_sines ! i + m ! md5_g i))), b, c)"

fun md5_add :: "md5_state \<Rightarrow> md5_state \<Rightarrow> md5_state" where
  "md5_add (a, b, c, d) (a', b', c', d') = (u32 (a + a'), u32 (b + b'), u32 (c + c'), u32 (d + d'))"

definition md5_block :: "md5_state \<Rightarrow> nat list \<Rightarrow> md5_state" where
  "md5_block st m = md5_add st (foldl (md5_round m) st [0..<64])"

text \<open>Padding: the byte 128, zeros up to 56 modulo 64 bytes, the bit length in 8 bytes.\<close>

definition md5_pad :: "nat list \<Rightarrow> nat list" where
  "md5_pad bs =
     (let n = length bs; bits = 8 * n
      in bs @ [128] @ replicate ((119 - n mod 64) mod 64) 0
            @ map (\<lambda>k. (bits div 256 ^ k) mod 256) [0..<8])"

text \<open>Little-endian words of four bytes, and blocks of sixteen words.\<close>

fun le_words :: "nat list \<Rightarrow> nat list" where
  "le_words (b0 # b1 # b2 # b3 # bs) =
     (b0 + 256 * b1 + 65536 * b2 + 16777216 * b3) # le_words bs"
| "le_words _ = []"

fun chunks16 :: "'a list \<Rightarrow> 'a list list" where
  "chunks16 [] = []"
| "chunks16 (x # xs) = take 16 (x # xs) # chunks16 (drop 16 (x # xs))"

definition hexChars :: string where
  "hexChars = ''0123456789abcdef''"

definition hex_byte :: "nat \<Rightarrow> string" where
  "hex_byte b = [hexChars ! ((b div 16) mod 16), hexChars ! (b mod 16)]"

definition hex_word :: "nat \<Rightarrow> string" where
  "hex_word w = concat (map (\<lambda>k. hex_byte ((w div 256 ^ k) mod 256)) [0..<4])"

fun md5_hex :: "md5_state \<Rightarrow> string" where
  "md5_hex (a, b, c, d) = hex_word a @ hex_word b @ hex_word c @ hex_word d"

text \<open>
  Modelled from the spec: \<^verbatim>\<open>Md5.hashStr(input)\<close>, the lowercase hexadecimal MD5 digest of
  the bytes of the text.
\<close>

definition hashStr :: "string \<Rightarrow> string" where
  "hashStr s =
     md5_hex (foldl md5_block md5_init (chunks16 (le_words (md5_pad (map of_char s)))))"

text \<open>\<^verbatim>\<open>function stringToMd5(input: string): string { return Md5.hashStr(input); }\<close>\<close>

definition stringToMd5 :: "string \<Rightarrow> string" where
  "stringToMd5 input = hashStr input"

section \<open>Wall clock and timestamps\<close>

text \<open>
  Modelled from the spec: \<^verbatim>\<open>dayjs().format("YYYY-MM-DD HH:mm:ss.SSS")\<close> belongs to the
  package \<^verbatim>\<open>dayjs\<close>, which is not part of the sources. The spec calls the result a
  timestamp of the current wall-clock time in the fixed format
  \<^verbatim>\<open>YYYY-MM-DD HH:mm:ss.SSS\<close>: every field is written in decimal and padded with zeros
  on the left to the width of its pattern.
\<close>

record datetime =
  year :: nat
  month :: nat
  day :: nat
  hour :: nat
  minute :: nat
  second :: nat
  millisecond :: nat

definition padStart :: "nat \<Rightarrow> nat \<Rightarrow> string" where
  "padStart w n = replicate (w - length (show_nat n)) (CHR ''0'') @ show_nat n"

text \<open>
  Modelled from the spec: \<^verbatim>\<open>format("YYYY-MM-DD HH:mm:ss.SSS")\<close> of a \<^verbatim>\<open>dayjs\<close> reading of the
  clock.
\<close>

definition format_datetime :: "datetime \<Rightarrow> string" where
  "format_datetime t =
     padStart 4 (year t) @ ''-'' @ padStart 2 (month t) @ ''-'' @ padStart 2 (day t) @ '' ''
       @ padStart 2 (hour t) @ '':'' @ padStart 2 (minute t) @ '':'' @ padStart 2 (second t)
       @ ''.'' @ padStart 3 (millisecond t)"

text \<open>A calendar reading whose year has at most four digits.\<close>

definition valid_datetime :: "datetime \<Rightarrow> bool" where
  "valid_datetime t \<longleftrightarrow>
     year t < 10000 \<and> 1 \<le> month t \<and> month t \<le> 12 \<and> 1 \<le> day t \<and> day t \<le> 31 \<and>
     hour t < 24 \<and> minute t < 60 \<and> second t < 60 \<and> millisecond t < 1000"

definition is_digit :: "char \<Rightarrow> bool" where
  "is_digit c \<longleftrightarrow> (48::nat) \<le> of_char c \<and> (of_char c :: nat) \<le> 57"

text \<open>The shape \<^verbatim>\<open>YYYY-MM-DD HH:mm:ss.SSS\<close>: 23 characters, digits and separators.\<close>

definition timestamp_format :: "string \<Rightarrow> bool" where
  "timestamp_format s \<longleftrightarrow>
     length s = 23 \<and>
     list_all (\<lambda>i. is_digit (s ! i))
       [0, 1, 2, 3, 5, 6, 8, 9, 11, 12, 14, 15, 17, 18, 20, 21, 22] \<and>
     s ! 4 = CHR ''-'' \<and> s ! 7 = CHR ''-'' \<and> s ! 10 = CHR '' '' \<and>
     s ! 13 = CHR '':'' \<and> s ! 16 = CHR '':'' \<and> s ! 19 = CHR ''.''"

section \<open>The runtime: JSON, clock and HTTP transport\<close>

text \<open>
  An outbound request: the URL, the method, the headers and the body text.
\<close>

record http_request =
  url :: string
  http_method :: string
  headers :: "(string \<times> string) list"
  payload :: string

text \<open>
  What \<^verbatim>\<open>fetch\<close> resolves to: the status line and the body text, which may fail to
  be read (\<open>Inl\<close>).
\<close>

record fetch_response =
  status :: nat
  statusText :: string
  body_text :: "thrown + string"

datatype fetch_outcome = FetchRejected thrown | FetchResponse fetch_response

text \<open>What \<^verbatim>\<open>https.request\<close> delivers: an \<^verbatim>\<open>error\<close> event, or a response that ends.\<close>

record https_response =
  statusCode :: "nat option"
  statusMessage :: "string option"
  chunks :: "string list"

datatype https_outcome = RequestError thrown | HttpsResponse https_response

text \<open>
  The services of the JavaScript runtime and of the network, which the program uses and
  does not define. \<open>fetch\<close> is \<^verbatim>\<open>globalThis.fetch\<close>, absent on an old runtime;
  \<open>JSON_parse\<close> returns the \<^verbatim>\<open>SyntaxError\<close> it throws as \<open>Inl\<close>; \<open>JSON_text\<close> writes a JSON
  value as text; \<open>toUpperCase\<close> is \<^verbatim>\<open>String.prototype.toUpperCase\<close>, which follows the
  Unicode case mapping; \<open>clock k\<close> is the \<open>k\<close>-th reading of the wall clock during one
  invocation.
\<close>

record runtime =
  fetch :: "(http_request \<Rightarrow> fetch_outcome) option"
  https_request :: "http_request \<Rightarrow> https_outcome"
  new_URL :: "string \<Rightarrow> thrown + string"
  JSON_parse :: "string \<Rightarrow> thrown + jsval"
  JSON_text :: "jsval \<Rightarrow> string"
  toUpperCase :: "string \<Rightarrow> string"
  clock :: "nat \<Rightarrow> datetime"

text \<open>\<^verbatim>\<open>function generateChatTime()\<close>, at the \<open>k\<close>-th reading of the clock.\<close>

definition generateChatTime :: "runtime \<Rightarrow> nat \<Rightarrow> string" where
  "generateChatTime rt k = format_datetime (clock rt k)"

text \<open>
  The JSON value that \<^verbatim>\<open>JSON.stringify\<close> writes for a value: a property whose value is
  \<^verbatim>\<open>undefined\<close> is left out of an object, and \<^verbatim>\<open>undefined\<close> in an array is written as
  \<^verbatim>\<open>null\<close>.
\<close>

fun serialized :: "jsval \<Rightarrow> jsval" where
  "serialized (JArr xs) = JArr (map (\<lambda>x. if x = JUndefined then JNull else serialized x) xs)"
| "serialized (JObj ms) =
     JObj (map (\<lambda>p. (fst p, serialized (snd p))) (filter (\<lambda>p. snd p \<noteq> JUndefined) ms))"
| "serialized v = v"

text \<open>\<^verbatim>\<open>JSON.stringify(v)\<close>: the text of the value written for \<open>v\<close>.\<close>

definition JSON_stringify :: "runtime \<Rightarrow> jsval \<Rightarrow> string" where
  "JSON_stringify rt v = JSON_text rt (serialized v)"


section \<open>Configuration\<close>

text \<open>The environment variables the program reads (\<^verbatim>\<open>process.env\<close>).\<close>

record env =
  MEMOS_API_KEY :: "string option"
  MEMOS_USER_ID :: "string option"
  MEMOS_CHANNEL :: "string option"
  MEMOS_BASE_URL_var :: "string option"
  MEMOS_CONVERSATION_ID :: "string option"

text \<open>
  \<^verbatim>\<open>const MEMOS_BASE_URL = process.env.MEMOS_BASE_URL || "https://memos.memtensor.cn/api/openmem/v1"\<close>
\<close>

definition MEMOS_BASE_URL :: "env \<Rightarrow> string" where
  "MEMOS_BASE_URL e =
     (case MEMOS_BASE_URL_var e of
        None \<Rightarrow> ''https://memos.memtensor.cn/api/openmem/v1''
      | Some u \<Rightarrow> if u = [] then ''https://memos.memtensor.cn/api/openmem/v1'' else u)"

text \<open>
  \<^verbatim>\<open>const MEMOS_CHANNEL_ID = process.env.MEMOS_CHANNEL?.toUpperCase() ?? "MEMOS"\<close>, with
  the \<^verbatim>\<open>toUpperCase\<close> of the runtime.
\<close>

definition MEMOS_CHANNEL_ID :: "runtime \<Rightarrow> env \<Rightarrow> string" where
  "MEMOS_CHANNEL_ID rt e =
     (case MEMOS_CHANNEL e of None \<Rightarrow> ''MEMOS'' | Some c \<Rightarrow> toUpperCase rt c)"

definition candidateChannelId :: "string list" where
  "candidateChannelId = [''MODELSCOPE'', ''MCPSO'', ''MCPMARKETCN'', ''MCPMARKETCOM'', ''MEMOS'']"

text \<open>\<^verbatim>\<open>candidateChannelId.includes(MEMOS_CHANNEL_ID)\<close>\<close>

definition known_channel :: "runtime \<Rightarrow> env \<Rightarrow> bool" where
  "known_channel rt e \<longleftrightarrow> MEMOS_CHANNEL_ID rt e \<in> set candidateChannelId"

section \<open>The request dispatcher\<close>

type_synonym js_object = "(string \<times> jsval) list"

text \<open>
  \<^verbatim>\<open>{ ...body, source: "MCP" }\<close>: the properties of \<open>body\<close> in their order, with
  \<open>source\<close> set; a property of that name keeps its place and takes the new value,
  otherwise the property is added at the end.
\<close>

definition payload_object :: "js_object \<Rightarrow> js_object" where
  "payload_object body = AList.update ''source'' (JStr ''MCP'') body"

text \<open>\<^verbatim>\<open>res.ok\<close>, and \<^verbatim>\<open>sc >= 200 && sc < 300\<close>.\<close>

definition ok :: "nat \<Rightarrow> bool" where
  "ok sc \<longleftrightarrow> 200 \<le> sc \<and> sc < 300"

text \<open>The message of the error thrown for a non-success status.\<close>

definition http_error :: "nat \<Rightarrow> string \<Rightarrow> string \<Rightarrow> thrown" where
  "http_error sc st txt = Error (''HTTP '' @ show_nat sc @ '' '' @ st @ '': '' @ txt)"

text \<open>
  What \<open>queryMemos\<close> makes of the outcome of \<^verbatim>\<open>fetch\<close>: a rejection is thrown on; for a
  status that is not \<^verbatim>\<open>ok\<close> the body is read as text, with \<^verbatim>\<open>""\<close> when that fails, and
  an error is thrown; otherwise the result is \<^verbatim>\<open>res.json()\<close>.
\<close>

definition read_fetch :: "runtime \<Rightarrow> fetch_outcome \<Rightarrow> thrown + jsval" where
  "read_fetch rt outcome =
     (case outcome of
        FetchRejected err \<Rightarrow> Inl err
      | FetchResponse res \<Rightarrow>
          if \<not> ok (status res) then
            (let txt = (case body_text res of Inl _ \<Rightarrow> [] | Inr t \<Rightarrow> t)
             in Inl (http_error (status res) (statusText res) txt))
          else (case body_text res of Inl err \<Rightarrow> Inl err | Inr t \<Rightarrow> JSON_parse rt t))"

text \<open>
  What \<open>queryMemos\<close> makes of the outcome of \<^verbatim>\<open>https.request\<close>: an \<^verbatim>\<open>error\<close> event
  rejects; at the end of the response the chunks are joined, and for a status in
  200..299 the text is parsed inside \<^verbatim>\<open>try\<close>, with the text itself as the fallback.
\<close>

definition read_https :: "runtime \<Rightarrow> https_outcome \<Rightarrow> thrown + jsval" where
  "read_https rt outcome =
     (case outcome of
        RequestError err \<Rightarrow> Inl err
      | HttpsResponse res \<Rightarrow>
          (let txt = concat (chunks res);
               sc = (case statusCode res of None \<Rightarrow> 0 | Some n \<Rightarrow> n)
           in if 200 \<le> sc \<and> sc < 300 then
                (case JSON_parse rt txt of Inl _ \<Rightarrow> Inr (JStr txt) | Inr v \<Rightarrow> Inr v)
              else
                Inl (http_error sc (case statusMessage res of None \<Rightarrow> [] | Some m \<Rightarrow> m) txt)))"

text \<open>
  \<^verbatim>\<open>async function queryMemos(path, body, apiKey)\<close>. With \<^verbatim>\<open>globalThis.fetch\<close> present
  the request goes through it; otherwise it goes through \<^verbatim>\<open>https.request\<close>, unless
  \<^verbatim>\<open>new URL(url)\<close> throws. The result is the outcome of the call together with the list
  of the HTTP requests it sent.
\<close>

definition queryMemos ::
  "runtime \<Rightarrow> env \<Rightarrow> string \<Rightarrow> js_object \<Rightarrow> string \<Rightarrow> (thrown + jsval) \<times> http_request list" where
  "queryMemos rt e path body apiKey =
     (let payload = JSON_stringify rt (JObj (payload_object body));
          url = MEMOS_BASE_URL e @ path
      in case fetch rt of
           Some f \<Rightarrow>
             (let req = \<lparr>url = url, http_method = ''POST'',
                         headers = [(''Content-Type'', ''application/json''),
                                    (''Authorization'', ''Token '' @ apiKey)],
                         payload = payload\<rparr>
              in (read_fetch rt (f req), [req]))
         | None \<Rightarrow>
             (case new_URL rt url of
                Inl err \<Rightarrow> (Inl err, [])
              | Inr u \<Rightarrow>
                  (let req = \<lparr>url = u, http_method = ''POST'',
                              headers = [(''Content-Type'', ''application/json''),
                                         (''Authorization'', ''Token '' @ apiKey),
                                         (''Content-Length'', show_nat (length payload))],
                              payload = payload\<rparr>
                   in (read_https rt (https_request rt req), [req]))))"

section \<open>Tool handlers\<close>

text \<open>
  The response of a tool: the text of its single content item, the structured content
  (absent in an error response) and the error flag.
\<close>

record tool_result =
  content_text :: string
  structuredContent :: "jsval option"
  isError :: bool

text \<open>One call of the dispatcher, as a handler makes it.\<close>

record dispatch =
  arg_path :: string
  arg_body :: js_object
  arg_apiKey :: string

text \<open>The \<^verbatim>\<open>catch (e)\<close> block shared by the handlers.\<close>

definition failure :: "thrown \<Rightarrow> tool_result" where
  "failure e =
     \<lparr>content_text = ''Error: '' @ (case e of Error m \<Rightarrow> m | NonError \<Rightarrow> ''Unknown error''),
      structuredContent = None, isError = True\<rparr>"

text \<open>
  \<^verbatim>\<open>return { content: [{ type: "text", text: JSON.stringify(data) }], structuredContent: data }\<close>
\<close>

definition success :: "runtime \<Rightarrow> jsval \<Rightarrow> tool_result" where
  "success rt data = \<lparr>content_text = JSON_stringify rt data, structuredContent = Some data, isError = False\<rparr>"

text \<open>
  \<^verbatim>\<open>const data = await queryMemos(...)\<close> inside \<^verbatim>\<open>try\<close>, followed by the \<^verbatim>\<open>return\<close>.
  The second component lists the dispatcher calls made.
\<close>

definition call_dispatcher :: "runtime \<Rightarrow> env \<Rightarrow> dispatch \<Rightarrow> tool_result \<times> dispatch list" where
  "call_dispatcher rt e c =
     (case fst (queryMemos rt e (arg_path c) (arg_body c) (arg_apiKey c)) of
        Inl err \<Rightarrow> (failure err, [c])
      | Inr data \<Rightarrow> (success rt data, [c]))"

text \<open>The messages of the two configuration errors.\<close>

definition api_key_not_set :: string where
  "api_key_not_set =
     ''MEMOS_API_KEY is not set, please set it in the environment variables or mcp.json file''"

definition user_id_not_set :: string where
  "user_id_not_set =
     ''MEMOS_USER_ID is not set, please set it in the environment variables or mcp.json file''"

text \<open>
  The three guards every handler starts with, in their order:
  \<^verbatim>\<open>if (!process.env.MEMOS_API_KEY) throw ...\<close>, \<^verbatim>\<open>if (!process.env.MEMOS_USER_ID) throw ...\<close>
  and \<^verbatim>\<open>if (!candidateChannelId.includes(MEMOS_CHANNEL_ID)) throw ...\<close>. A variable fails
  its guard when it is unset or empty. When all guards pass, the API key and the user
  identifier that the handler goes on to read are returned.
\<close>

definition guards :: "runtime \<Rightarrow> env \<Rightarrow> thrown + string \<times> string" where
  "guards rt e =
     (case MEMOS_API_KEY e of
        None \<Rightarrow> Inl (Error api_key_not_set)
      | Some key \<Rightarrow>
          if key = [] then Inl (Error api_key_not_set)
          else
            (case MEMOS_USER_ID e of
               None \<Rightarrow> Inl (Error user_id_not_set)
             | Some uid \<Rightarrow>
                 if uid = [] then Inl (Error user_id_not_set)
                 else if \<not> known_channel rt e then
                   Inl (Error (''Unknown channel: '' @ MEMOS_CHANNEL_ID rt e))
                 else Inr (key, uid)))"

text \<open>
  \<^verbatim>\<open>stringToMd5(process.env.MEMOS_USER_ID + '\n' + conversation_first_message) || process.env.MEMOS_CONVERSATION_ID\<close>
\<close>

definition actualConversationId :: "env \<Rightarrow> string \<Rightarrow> string \<Rightarrow> string option" where
  "actualConversationId e uid conversation_first_message =
     or_else (stringToMd5 (uid @ [CHR 0x0A] @ conversation_first_message)) (MEMOS_CONVERSATION_ID e)"

text \<open>
  \<^verbatim>\<open>MEMOS_CHANNEL_ID === "MEMOS" ? process.env.MEMOS_USER_ID : process.env.MEMOS_USER_ID + "-" + MEMOS_CHANNEL_ID\<close>
\<close>

definition actualUserId :: "runtime \<Rightarrow> env \<Rightarrow> string \<Rightarrow> string" where
  "actualUserId rt e uid =
     (if MEMOS_CHANNEL_ID rt e = ''MEMOS'' then uid else uid @ ''-'' @ MEMOS_CHANNEL_ID rt e)"

record message =
  role :: string
  content :: string
  chat_time :: "string option"

text \<open>
  \<^verbatim>\<open>messages.map(message => ({ role, content, chat_time: message.chat_time || generateChatTime() }))\<close>.
  The messages are mapped in order; \<open>k\<close> counts the readings of the clock made so far.
\<close>

fun newMessages :: "runtime \<Rightarrow> nat \<Rightarrow> message list \<Rightarrow> jsval list" where
  "newMessages rt k [] = []"
| "newMessages rt k (m # ms) =
     (if falsy (chat_time m) then
        JObj [(''role'', JStr (role m)), (''content'', JStr (content m)),
              (''chat_time'', JStr (generateChatTime rt k))] # newMessages rt (Suc k) ms
      else
        JObj [(''role'', JStr (role m)), (''content'', JStr (content m)),
              (''chat_time'', js_string (chat_time m))] # newMessages rt k ms)"

definition add_message :: "runtime \<Rightarrow> env \<Rightarrow> string \<Rightarrow> message list \<Rightarrow> tool_result \<times> dispatch list" where
  "add_message rt e conversation_first_message messages =
     (case guards rt e of
        Inl err \<Rightarrow> (failure err, [])
      | Inr (key, uid) \<Rightarrow>
          call_dispatcher rt e
            \<lparr>arg_path = ''/add/message'',
             arg_body = [(''user_id'', JStr (actualUserId rt e uid)),
                     (''conversation_id'', js_string (actualConversationId e uid conversation_first_message)),
                     (''messages'', JArr (newMessages rt 0 messages))],
             arg_apiKey = key\<rparr>)"

text \<open>\<^verbatim>\<open>memory_limit_number || 6\<close>\<close>

definition limit_or_default :: "rat option \<Rightarrow> rat" where
  "limit_or_default n = (case n of None \<Rightarrow> 6 | Some x \<Rightarrow> if x = 0 then 6 else x)"

definition search_memory ::
  "runtime \<Rightarrow> env \<Rightarrow> string \<Rightarrow> string \<Rightarrow> rat option \<Rightarrow> tool_result \<times> dispatch list" where
  "search_memory rt e query conversation_first_message memory_limit_number =
     (case guards rt e of
        Inl err \<Rightarrow> (failure err, [])
      | Inr (key, uid) \<Rightarrow>
          call_dispatcher rt e
            \<lparr>arg_path = ''/search/memory'',
             arg_body = [(''query'', JStr query),
                     (''user_id'', JStr (actualUserId rt e uid)),
                     (''conversation_id'', js_string (actualConversationId e uid conversation_first_message)),
                     (''memory_limit_number'', JNum (limit_or_default memory_limit_number))],
             arg_apiKey = key\<rparr>)"

definition delete_memory :: "runtime \<Rightarrow> env \<Rightarrow> string list \<Rightarrow> tool_result \<times> dispatch list" where
  "delete_memory rt e memory_ids =
     (case guards rt e of
        Inl err \<Rightarrow> (failure err, [])
      | Inr (key, uid) \<Rightarrow>
          call_dispatcher rt e
            \<lparr>arg_path = ''/delete/memory'',
             arg_body = [(''user_ids'', JArr [JStr (actualUserId rt e uid)]),
                     (''memory_ids'', JArr (map JStr memory_ids))],
             arg_apiKey = key\<rparr>)"

record feedback_args =
  fb_conversation_first_message :: string
  feedback_content :: string
  agent_id :: "string option"
  app_id :: "string option"
  feedback_time :: "string option"
  allow_public :: "bool option"
  allow_knowledgebase_ids :: "string list option"

definition add_feedback :: "runtime \<Rightarrow> env \<Rightarrow> feedback_args \<Rightarrow> tool_result \<times> dispatch list" where
  "add_feedback rt e a =
     (case guards rt e of
        Inl err \<Rightarrow> (failure err, [])
      | Inr (key, uid) \<Rightarrow>
          call_dispatcher rt e
            \<lparr>arg_path = ''/add/feedback'',
             arg_body = [(''user_id'', JStr (actualUserId rt e uid)),
                     (''conversation_id'',
                        js_string (actualConversationId e uid (fb_conversation_first_message a))),
                     (''feedback_content'', JStr (feedback_content a)),
                     (''agent_id'', js_string (agent_id a)),
                     (''app_id'', js_string (app_id a)),
                     (''feedback_time'', js_string (feedback_time a)),
                     (''allow_public'',
                        (case allow_public a of None \<Rightarrow> JUndefined | Some b \<Rightarrow> JBool b)),
                     (''allow_knowledgebase_ids'',
                        (case allow_knowledgebase_ids a of
                           None \<Rightarrow> JUndefined | Some ids \<Rightarrow> JArr (map JStr ids)))],
             arg_apiKey = key\<rparr>)"

section \<open>The earlier variant of the adapter\<close>

text \<open>
  The repository holds a second, earlier version of the same file with three tools
  (\<^verbatim>\<open>add_message\<close>, \<^verbatim>\<open>search_memory\<close>, \<^verbatim>\<open>get_message\<close>). It differs in the default channel,
  in the allow-list, in the dispatcher (only \<^verbatim>\<open>fetch\<close>, and the channel is sent as
  \<^verbatim>\<open>source\<close>) and in the user identifier, which is sent as configured.
\<close>

text \<open>\<^verbatim>\<open>const MEMOS_CHANNEL = process.env.MEMOS_CHANNEL?.toUpperCase() ?? "MODELSCOPE_REMOTE"\<close>\<close>

definition legacy_MEMOS_CHANNEL :: "runtime \<Rightarrow> env \<Rightarrow> string" where
  "legacy_MEMOS_CHANNEL rt e =
     (case MEMOS_CHANNEL e of None \<Rightarrow> ''MODELSCOPE_REMOTE'' | Some c \<Rightarrow> toUpperCase rt c)"

definition legacy_candidateChannelId :: "string list" where
  "legacy_candidateChannelId =
     [''MODELSCOPE'', ''MCPSO'', ''MCPMARKETCN'', ''MCPMARKETCOM'', ''MEMOS'', ''GITHUB'',
      ''GLAMA'', ''PULSEMCP'', ''MCPSERVERS'', ''LOBEHUB'', ''MODELSCOPE_REMOTE'']"

definition legacy_known_channel :: "runtime \<Rightarrow> env \<Rightarrow> bool" where
  "legacy_known_channel rt e \<longleftrightarrow> legacy_MEMOS_CHANNEL rt e \<in> set legacy_candidateChannelId"

text \<open>\<^verbatim>\<open>candidateChannelId.join(", ")\<close>\<close>

fun join :: "string \<Rightarrow> string list \<Rightarrow> string" where
  "join sep [] = []"
| "join sep [x] = x"
| "join sep (x # y # ys) = x @ sep @ join sep (y # ys)"

text \<open>
  \<^verbatim>\<open>async function queryMemos(path, body, apiKey, source)\<close> of the earlier variant. It
  calls the global \<^verbatim>\<open>fetch\<close>; where there is none, the call throws a
  \<^verbatim>\<open>ReferenceError\<close>.
\<close>

definition legacy_queryMemos ::
  "runtime \<Rightarrow> env \<Rightarrow> string \<Rightarrow> js_object \<Rightarrow> string \<Rightarrow> string \<Rightarrow>
     (thrown + jsval) \<times> http_request list" where
  "legacy_queryMemos rt e path body apiKey source =
     (case fetch rt of
        None \<Rightarrow> (Inl (Error ''fetch is not defined''), [])
      | Some f \<Rightarrow>
          (let req = \<lparr>url = MEMOS_BASE_URL e @ path, http_method = ''POST'',
                      headers = [(''Content-Type'', ''application/json''),
                                 (''Authorization'', ''Token '' @ apiKey)],
                      payload = JSON_stringify rt (JObj (AList.update ''source'' (JStr source) body))\<rparr>
           in (read_fetch rt (f req), [req])))"

definition legacy_call_dispatcher ::
  "runtime \<Rightarrow> env \<Rightarrow> dispatch \<Rightarrow> tool_result \<times> dispatch list" where
  "legacy_call_dispatcher rt e c =
     (case fst (legacy_queryMemos rt e (arg_path c) (arg_body c) (arg_apiKey c)
                  (legacy_MEMOS_CHANNEL rt e)) of
        Inl err \<Rightarrow> (failure err, [c])
      | Inr data \<Rightarrow> (success rt data, [c]))"

text \<open>
  The guards of the earlier variant. Only \<^verbatim>\<open>add_message\<close> lists the candidates in the
  message for an unknown channel (\<open>verbose\<close>).
\<close>

definition legacy_guards :: "bool \<Rightarrow> runtime \<Rightarrow> env \<Rightarrow> thrown + string \<times> string" where
  "legacy_guards verbose rt e =
     (case MEMOS_API_KEY e of
        None \<Rightarrow> Inl (Error api_key_not_set)
      | Some key \<Rightarrow>
          if key = [] then Inl (Error api_key_not_set)
          else
            (case MEMOS_USER_ID e of
               None \<Rightarrow> Inl (Error user_id_not_set)
             | Some uid \<Rightarrow>
                 if uid = [] then Inl (Error user_id_not_set)
                 else if \<not> legacy_known_channel rt e then
                   Inl (Error (''Unknown channel: '' @ legacy_MEMOS_CHANNEL rt e
                               @ (if verbose
                                  then '', candidates: '' @ join '', '' legacy_candidateChannelId
                                  else [])))
                 else Inr (key, uid)))"

definition legacy_add_message ::
  "runtime \<Rightarrow> env \<Rightarrow> string \<Rightarrow> message list \<Rightarrow> tool_result \<times> dispatch list" where
  "legacy_add_message rt e conversation_first_message messages =
     (case legacy_guards True rt e of
        Inl err \<Rightarrow> (failure err, [])
      | Inr (key, uid) \<Rightarrow>
          legacy_call_dispatcher rt e
            \<lparr>arg_path = ''/add/message'',
             arg_body = [(''user_id'', JStr uid),
                     (''conversation_id'', js_string (actualConversationId e uid conversation_first_message)),
                     (''messages'', JArr (newMessages rt 0 messages))],
             arg_apiKey = key\<rparr>)"

definition legacy_search_memory ::
  "runtime \<Rightarrow> env \<Rightarrow> string \<Rightarrow> string \<Rightarrow> rat option \<Rightarrow> tool_result \<times> dispatch list" where
  "legacy_search_memory rt e query conversation_first_message memory_limit_number =
     (case legacy_guards False rt e of
        Inl err \<Rightarrow> (failure err, [])
      | Inr (key, uid) \<Rightarrow>
          legacy_call_dispatcher rt e
            \<lparr>arg_path = ''/search/memory'',
             arg_body = [(''query'', JStr query),
                     (''user_id'', JStr uid),
                     (''conversation_id'', js_string (actualConversationId e uid conversation_first_message)),
                     (''memory_limit_number'', JNum (limit_or_default memory_limit_number))],
             arg_apiKey = key\<rparr>)"

definition legacy_get_message :: "runtime \<Rightarrow> env \<Rightarrow> string \<Rightarrow> tool_result \<times> dispatch list" where
  "legacy_get_message rt e conversation_first_message =
     (case legacy_guards False rt e of
        Inl err \<Rightarrow> (failure err, [])
      | Inr (key, uid) \<Rightarrow>
          legacy_call_dispatcher rt e
            \<lparr>arg_path = ''/get/message'',
             arg_body = [(''user_id'', JStr uid),
                     (''conversation_id'', js_string (actualConversationId e uid conversation_first_message))],
             arg_apiKey = key\<rparr>)"

section \<open>Observations\<close>


text \<open>
  The user identifier a dispatcher call carries: the property \<open>user_id\<close>, or the single
  element of \<open>user_ids\<close>.
\<close>

definition outbound_user_id :: "dispatch \<Rightarrow> jsval option" where
  "outbound_user_id c =
     (case map_of (arg_body c) ''user_id'' of
        Some v \<Rightarrow> Some v
      | None \<Rightarrow> (case map_of (arg_body c) ''user_ids'' of Some (JArr [v]) \<Rightarrow> Some v | _ \<Rightarrow> None))"

text \<open>A response that failed before the dispatcher was called, with a text containing \<open>s\<close>.\<close>

definition rejected_with :: "string \<Rightarrow> tool_result \<times> dispatch list \<Rightarrow> bool" where
  "rejected_with s r \<longleftrightarrow> isError (fst r) \<and> sublist s (content_text (fst r)) \<and> snd r = []"


section \<open>Concrete inputs\<close>

text \<open>
  A configuration, a runtime and arguments on which the model is evaluated. The runtime
  is a test double: its server gives one fixed answer; its \<open>JSON_parse\<close> reads the texts
  \<^verbatim>\<open>null\<close> and \<^verbatim>\<open>{}\<close> only, and the bodies it is given besides are not JSON; its
  \<open>JSON_text\<close> writes \<^verbatim>\<open>null\<close>, an object of string properties, and \<^verbatim>\<open>{}\<close> for any other
  value; its \<open>toUpperCase\<close> maps the letters \<^verbatim>\<open>a\<close> to \<^verbatim>\<open>z\<close>, as
  \<^verbatim>\<open>String.prototype.toUpperCase\<close> does on a text of ASCII characters, which the tags
  used below are.
\<close>

definition sample_env :: env where
  "sample_env =
     \<lparr>MEMOS_API_KEY = Some ''key'', MEMOS_USER_ID = Some ''alice'', MEMOS_CHANNEL = Some ''mcpso'',
      MEMOS_BASE_URL_var = None, MEMOS_CONVERSATION_ID = Some ''fallback''\<rparr>"

text \<open>The same configuration without an API key and with a channel outside the allow-list.\<close>

definition keyless_env :: env where
  "keyless_env =
     \<lparr>MEMOS_API_KEY = None, MEMOS_USER_ID = Some ''alice'', MEMOS_CHANNEL = Some ''foo'',
      MEMOS_BASE_URL_var = None, MEMOS_CONVERSATION_ID = Some ''fallback''\<rparr>"

definition sample_parse :: "string \<Rightarrow> thrown + jsval" where
  "sample_parse s =
     (if s = ''null'' then Inr JNull
      else if s = ''{}'' then Inr (JObj [])
      else Inl (Error ''Unexpected token''))"

definition ascii_upper :: "char \<Rightarrow> char" where
  "ascii_upper c =
     (if 97 \<le> (of_char c :: nat) \<and> (of_char c :: nat) \<le> 122 then char_of (of_char c - 32 :: nat)
      else c)"

definition ascii_toUpperCase :: "string \<Rightarrow> string" where
  "ascii_toUpperCase s = map ascii_upper s"

text \<open>The text of a string without characters to escape, and of a property with such a value.\<close>

definition quoted :: "string \<Rightarrow> string" where
  "quoted s = [CHR 0x22] @ s @ [CHR 0x22]"

fun property_text :: "string \<times> jsval \<Rightarrow> string" where
  "property_text (k, JStr s) = quoted k @ '':'' @ quoted s"
| "property_text (k, v) = quoted k @ '':{}''"

definition sample_text :: "jsval \<Rightarrow> string" where
  "sample_text v =
     (case v of
        JNull \<Rightarrow> ''null''
      | JObj ms \<Rightarrow> ''{'' @ join '','' (map property_text ms) @ ''}''
      | _ \<Rightarrow> ''{}'')"

definition sample_clock :: "nat \<Rightarrow> datetime" where
  "sample_clock k =
     \<lparr>year = 2026, month = 11, day = 2, hour = 8, minute = 5, second = 0, millisecond = k mod 1000\<rparr>"

definition sample_runtime :: "fetch_response \<Rightarrow> runtime" where
  "sample_runtime res =
     \<lparr>fetch = Some (\<lambda>req. FetchResponse res),
      https_request = (\<lambda>req. RequestError (Error ''connect ECONNREFUSED'')),
      new_URL = Inr, JSON_parse = sample_parse, JSON_text = sample_text,
      toUpperCase = ascii_toUpperCase, clock = sample_clock\<rparr>"

text \<open>The same runtime without \<^verbatim>\<open>globalThis.fetch\<close>: requests go through \<^verbatim>\<open>https.request\<close>.\<close>

definition sample_runtime_https :: "https_response \<Rightarrow> runtime" where
  "sample_runtime_https res =
     \<lparr>fetch = None,
      https_request = (\<lambda>req. HttpsResponse res),
      new_URL = Inr, JSON_parse = sample_parse, JSON_text = sample_text,
      toUpperCase = ascii_toUpperCase, clock = sample_clock\<rparr>"

definition ok_response :: fetch_response where
  "ok_response = \<lparr>status = 200, statusText = ''OK'', body_text = Inr ''{}''\<rparr>"

definition sample_message :: message where
  "sample_message = \<lparr>role = ''user'', content = ''hello'', chat_time = None\<rparr>"

definition stamped_message :: message where
  "stamped_message =
     \<lparr>role = ''assistant'', content = ''hi'', chat_time = Some ''2026-11-02 08:04:59.120''\<rparr>"

definition sample_messages :: "message list" where
  "sample_messages = [sample_message, stamped_message]"

definition sample_feedback :: feedback_args where
  "sample_feedback =
     \<lparr>fb_conversation_first_message = ''hello'', feedback_content = ''forget my address'',
      agent_id = None, app_id = None, feedback_time = None, allow_public = None,
      allow_knowledgebase_ids = None\<rparr>"

text \<open>The dispatcher calls that the handlers make on these inputs.\<close>

definition sample_add_message_call :: "string \<Rightarrow> dispatch" where
  "sample_add_message_call user =
     \<lparr>arg_path = ''/add/message'',
      arg_body = [(''user_id'', JStr user),
                  (''conversation_id'', JStr ''436fbc0a382e7fcf5ed6d8ca07772ac0''),
                  (''messages'',
                     JArr [JObj [(''role'', JStr ''user''), (''content'', JStr ''hello''),
                                 (''chat_time'', JStr ''2026-11-02 08:05:00.000'')],
                           JObj [(''role'', JStr ''assistant''), (''content'', JStr ''hi''),
                                 (''chat_time'', JStr ''2026-11-02 08:04:59.120'')]])],
      arg_apiKey = ''key''\<rparr>"


definition sample_delete_call :: dispatch where
  "sample_delete_call =
     \<lparr>arg_path = ''/delete/memory'',
      arg_body = [(''user_ids'', JArr [JStr ''alice-MCPSO'']), (''memory_ids'', JArr [JStr ''m1''])],
      arg_apiKey = ''key''\<rparr>"

definition sample_feedback_call :: dispatch where
  "sample_feedback_call =
     \<lparr>arg_path = ''/add/feedback'',
      arg_body = [(''user_id'', JStr ''alice-MCPSO''),
                  (''conversation_id'', JStr ''436fbc0a382e7fcf5ed6d8ca07772ac0''),
                  (''feedback_content'', JStr ''forget my address''),
                  (''agent_id'', JUndefined),
                  (''app_id'', JUndefined),
                  (''feedback_time'', JUndefined),
                  (''allow_public'', JUndefined),
                  (''allow_knowledgebase_ids'', JUndefined)],
      arg_apiKey = ''key''\<rparr>"

definition sample_get_message_call :: dispatch where
  "sample_get_message_call =
     \<lparr>arg_path = ''/get/message'',
      arg_body = [(''user_id'', JStr ''alice''),
                  (''conversation_id'', JStr ''436fbc0a382e7fcf5ed6d8ca07772ac0'')],
      arg_apiKey = ''key''\<rparr>"


definition malformed_response :: fetch_response where
  "malformed_response = \<lparr>status = 200, statusText = ''OK'', body_text = Inr ''<html>busy</html>''\<rparr>"

definition malformed_https_response :: https_response where
  "malformed_https_response =
     \<lparr>statusCode = Some 200, statusMessage = Some ''OK'', chunks = [''<html>'', ''busy</html>'']\<rparr>"



section \<open>Basic facts about the handlers\<close>

lemma guards_Inr:
  "guards rt e = Inr (key, uid) \<Longrightarrow>
     MEMOS_API_KEY e = Some key \<and> key \<noteq> [] \<and> MEMOS_USER_ID e = Some uid \<and> uid \<noteq> [] \<and> known_channel rt e"
  by (auto simp: guards_def split: if_splits option.splits)

lemma legacy_guards_Inr:
  "legacy_guards v rt e = Inr (key, uid) \<Longrightarrow>
     MEMOS_API_KEY e = Some key \<and> key \<noteq> [] \<and> MEMOS_USER_ID e = Some uid \<and> uid \<noteq> [] \<and>
     legacy_known_channel rt e"
  by (auto simp: legacy_guards_def split: if_splits option.splits)

lemma snd_call_dispatcher: "snd (call_dispatcher rt e c) = [c]"
  by (simp add: call_dispatcher_def split: sum.splits)

lemma snd_legacy_call_dispatcher: "snd (legacy_call_dispatcher rt e c) = [c]"
  by (simp add: legacy_call_dispatcher_def split: sum.splits)

lemma sublist_prepend: "sublist s m \<Longrightarrow> sublist s (p @ m)"
  unfolding sublist_def by (metis append.assoc)

lemma failure_text: "content_text (failure (Error m)) = ''Error: '' @ m"
  by (simp add: failure_def)

lemma failure_isError: "isError (failure err)"
  by (simp add: failure_def)

lemma rejected_failure:
  assumes "sublist s m"
  shows "rejected_with s (failure (Error m), [])"
proof -
  have "sublist s (''Error: '' @ m)"
    using assms by (rule sublist_prepend)
  then show ?thesis
    unfolding rejected_with_def by (simp only: fst_conv snd_conv failure_text failure_isError simp_thms)
qed

text \<open>The dispatcher calls a handler makes: none, or one with the body the handler built.\<close>

lemma add_message_calls:
  assumes "c \<in> set (snd (add_message rt e conversation_first_message messages))"
  shows "\<exists>key uid. guards rt e = Inr (key, uid) \<and>
           c = \<lparr>arg_path = ''/add/message'',
                arg_body = [(''user_id'', JStr (actualUserId rt e uid)),
                            (''conversation_id'', js_string (actualConversationId e uid conversation_first_message)),
                            (''messages'', JArr (newMessages rt 0 messages))],
                arg_apiKey = key\<rparr>"
  using assms
  by (auto simp: add_message_def snd_call_dispatcher split: sum.splits prod.splits)

lemma search_memory_calls:
  assumes "c \<in> set (snd (search_memory rt e query conversation_first_message memory_limit_number))"
  shows "\<exists>key uid. guards rt e = Inr (key, uid) \<and>
           c = \<lparr>arg_path = ''/search/memory'',
                arg_body = [(''query'', JStr query),
                            (''user_id'', JStr (actualUserId rt e uid)),
                            (''conversation_id'', js_string (actualConversationId e uid conversation_first_message)),
                            (''memory_limit_number'', JNum (limit_or_default memory_limit_number))],
                arg_apiKey = key\<rparr>"
  using assms
  by (auto simp: search_memory_def snd_call_dispatcher split: sum.splits prod.splits)

lemma delete_memory_calls:
  assumes "c \<in> set (snd (delete_memory rt e memory_ids))"
  shows "\<exists>key uid. guards rt e = Inr (key, uid) \<and>
           c = \<lparr>arg_path = ''/delete/memory'',
                arg_body = [(''user_ids'', JArr [JStr (actualUserId rt e uid)]),
                            (''memory_ids'', JArr (map JStr memory_ids))],
                arg_apiKey = key\<rparr>"
  using assms
  by (auto simp: delete_memory_def snd_call_dispatcher split: sum.splits prod.splits)

lemma add_feedback_calls:
  assumes "c \<in> set (snd (add_feedback rt e a))"
  shows "\<exists>key uid. guards rt e = Inr (key, uid) \<and>
           arg_path c = ''/add/feedback'' \<and> arg_apiKey c = key \<and>
           map_of (arg_body c) ''user_id'' = Some (JStr (actualUserId rt e uid)) \<and>
           map_of (arg_body c) ''user_ids'' = None \<and>
           map_of (arg_body c) ''conversation_id'' =
             Some (js_string (actualConversationId e uid (fb_conversation_first_message a)))"
  using assms
  by (auto simp: add_feedback_def snd_call_dispatcher split: sum.splits prod.splits)

lemma legacy_add_message_calls:
  assumes "c \<in> set (snd (legacy_add_message rt e conversation_first_message messages))"
  shows "\<exists>key uid. legacy_guards True rt e = Inr (key, uid) \<and>
           c = \<lparr>arg_path = ''/add/message'',
                arg_body = [(''user_id'', JStr uid),
                            (''conversation_id'', js_string (actualConversationId e uid conversation_first_message)),
                            (''messages'', JArr (newMessages rt 0 messages))],
                arg_apiKey = key\<rparr>"
  using assms
  by (auto simp: legacy_add_message_def snd_legacy_call_dispatcher split: sum.splits prod.splits)

lemma legacy_search_memory_calls:
  assumes "c \<in> set (snd (legacy_search_memory rt e query conversation_first_message memory_limit_number))"
  shows "\<exists>key uid. legacy_guards False rt e = Inr (key, uid) \<and>
           c = \<lparr>arg_path = ''/search/memory'',
                arg_body = [(''query'', JStr query),
                            (''user_id'', JStr uid),
                            (''conversation_id'', js_string (actualConversationId e uid conversation_first_message)),
                            (''memory_limit_number'', JNum (limit_or_default memory_limit_number))],
                arg_apiKey = key\<rparr>"
  using assms
  by (auto simp: legacy_search_memory_def snd_legacy_call_dispatcher split: sum.splits prod.splits)

lemma legacy_get_message_calls:
  assumes "c \<in> set (snd (legacy_get_message rt e conversation_first_message))"
  shows "\<exists>key uid. legacy_guards False rt e = Inr (key, uid) \<and>
           c = \<lparr>arg_path = ''/get/message'',
                arg_body = [(''user_id'', JStr uid),
                            (''conversation_id'', js_string (actualConversationId e uid conversation_first_message))],
                arg_apiKey = key\<rparr>"
  using assms
  by (auto simp: legacy_get_message_def snd_legacy_call_dispatcher split: sum.splits prod.splits)

text \<open>With a valid configuration every handler calls the dispatcher exactly once.\<close>

lemma made_calls:
  assumes "guards rt e = Inr (key, uid)"
  shows "length (snd (add_message rt e conversation_first_message messages)) = 1"
    and "length (snd (search_memory rt e query conversation_first_message memory_limit_number)) = 1"
    and "length (snd (delete_memory rt e memory_ids)) = 1"
    and "length (snd (add_feedback rt e a)) = 1"
  using assms
  by (simp_all add: add_message_def search_memory_def delete_memory_def add_feedback_def
      snd_call_dispatcher)

text \<open>The concrete configuration passes the guards of both variants.\<close>

lemma ascii_upper_mcpso: "ascii_toUpperCase ''mcpso'' = ''MCPSO''"
  by code_simp

lemma upper_mcpso: "toUpperCase (sample_runtime res) ''mcpso'' = ''MCPSO''"
  by (simp add: sample_runtime_def ascii_upper_mcpso)

lemma sample_guards: "guards (sample_runtime res) sample_env = Inr (''key'', ''alice'')"
  by (simp add: guards_def sample_env_def known_channel_def MEMOS_CHANNEL_ID_def
      upper_mcpso candidateChannelId_def)

lemma sample_legacy_guards: "legacy_guards v (sample_runtime res) sample_env = Inr (''key'', ''alice'')"
  by (simp add: legacy_guards_def sample_env_def legacy_known_channel_def
      legacy_MEMOS_CHANNEL_def upper_mcpso legacy_candidateChannelId_def)

section \<open>The digest has 32 lowercase hexadecimal characters\<close>

lemma length_hex_byte: "length (hex_byte b) = 2"
  by (simp add: hex_byte_def)

lemma length_hex_word: "length (hex_word w) = 8"
  by (simp add: hex_word_def length_concat comp_def length_hex_byte sum_list_triv)

lemma length_md5_hex: "length (md5_hex st) = 32"
  by (cases st) (simp add: length_hex_word)

lemma length_hashStr: "length (hashStr s) = 32"
  by (simp add: hashStr_def length_md5_hex)

lemma hexChars_nth: "hexChars ! (n mod 16) \<in> set hexChars"
  by (rule nth_mem) (simp add: hexChars_def)

lemma set_hex_byte: "set (hex_byte b) \<subseteq> set hexChars"
  using hexChars_nth [of "b div 16"] hexChars_nth [of b] by (simp add: hex_byte_def)

lemma set_hex_word: "set (hex_word w) \<subseteq> set hexChars"
  using set_hex_byte by (auto simp: hex_word_def)

lemma set_md5_hex: "set (md5_hex st) \<subseteq> set hexChars"
  using set_hex_word by (cases st) auto

lemma set_hashStr: "set (hashStr s) \<subseteq> set hexChars"
  by (simp add: hashStr_def set_md5_hex)

lemma stringToMd5_nonempty: "stringToMd5 s \<noteq> []"
  using length_hashStr [of s] by (auto simp: stringToMd5_def)

lemma actualConversationId_digest:
  "actualConversationId e uid m = Some (stringToMd5 (uid @ [CHR 0x0A] @ m))"
  by (simp add: actualConversationId_def or_else_def stringToMd5_nonempty)

text \<open>The model computes the digests of the MD5 test suite (RFC 1321, A.5).\<close>

lemma replicate_numeral_step: "replicate (numeral k) x = x # replicate (pred_numeral k) x"
  by (simp add: numeral_eq_Suc)

lemma md5_words_empty:
  "le_words (md5_pad []) = [128, 0, 0, 0, 0, 0, 0, 0, 0, 0, 0, 0, 0, 0, 0, 0]"
  by (simp add: md5_pad_def upt_conv_Cons replicate_numeral_step)

lemma md5_of_empty_text: "hashStr '''' = ''d41d8cd98f00b204e9800998ecf8427e''"
  unfolding hashStr_def list.map md5_words_empty
  by (simp add: md5_block_def upt_conv_Cons md5_init_def md5_sines_def md5_shifts_def md5_f_def
      md5_g_def u32_def not32_def rotl32_def hex_word_def hex_byte_def hexChars_def)

lemma md5_words_abc:
  "le_words (md5_pad [97, 98, 99]) = [2153996897, 0, 0, 0, 0, 0, 0, 0, 0, 0, 0, 0, 0, 0, 24, 0]"
  by (simp add: md5_pad_def upt_conv_Cons replicate_numeral_step)

lemma md5_of_abc: "hashStr ''abc'' = ''900150983cd24fb0d6963f7d28e17f72''"
proof -
  have bytes: "map of_char ''abc'' = [97, 98, 99 :: nat]"
    by simp
  show ?thesis
    unfolding hashStr_def bytes md5_words_abc
    by (simp add: md5_block_def upt_conv_Cons md5_init_def md5_sines_def md5_shifts_def md5_f_def
        md5_g_def u32_def not32_def rotl32_def hex_word_def hex_byte_def hexChars_def)
qed

lemma md5_words_newline:
  "le_words (md5_pad [10]) = [32778, 0, 0, 0, 0, 0, 0, 0, 0, 0, 0, 0, 0, 0, 8, 0]"
  by (simp add: md5_pad_def upt_conv_Cons replicate_numeral_step)

lemma md5_of_newline: "hashStr [CHR 0x0A] = ''68b329da9893e34099c7d8ad5cb9c940''"
proof -
  have bytes: "map of_char [CHR 0x0A] = [10 :: nat]"
    by simp
  show ?thesis
    unfolding hashStr_def bytes md5_words_newline
    by (simp add: md5_block_def upt_conv_Cons md5_init_def md5_sines_def md5_shifts_def md5_f_def
        md5_g_def u32_def not32_def rotl32_def hex_word_def hex_byte_def hexChars_def)
qed

section \<open>The handlers on the concrete inputs\<close>

lemma sample_bytes:
  "map of_char (''alice'' @ [CHR 0x0A] @ ''hello'') = [97, 108, 105, 99, 101, 10, 104, 101, 108, 108, 111 :: nat]"
  by simp

lemma md5_words_sample:
  "le_words (md5_pad [97, 108, 105, 99, 101, 10, 104, 101, 108, 108, 111]) =
     [1667853409, 1701317221, 2154785900, 0, 0, 0, 0, 0, 0, 0, 0, 0, 0, 0, 88, 0]"
  by (simp add: md5_pad_def upt_conv_Cons replicate_numeral_step)

lemma md5_of_sample:
  "hashStr (''alice'' @ [CHR 0x0A] @ ''hello'') = ''436fbc0a382e7fcf5ed6d8ca07772ac0''"
  unfolding hashStr_def sample_bytes md5_words_sample
  by (simp add: md5_block_def upt_conv_Cons md5_init_def md5_sines_def md5_shifts_def md5_f_def
      md5_g_def u32_def not32_def rotl32_def hex_word_def hex_byte_def hexChars_def)

lemma sample_conversation_id:
  "js_string (actualConversationId e ''alice'' ''hello'') = JStr ''436fbc0a382e7fcf5ed6d8ca07772ac0''"
  using md5_of_sample by (simp add: actualConversationId_digest js_string_def stringToMd5_def)

lemma js_string_None: "js_string None = JUndefined"
  by (simp add: js_string_def)

lemma sample_channel: "MEMOS_CHANNEL_ID (sample_runtime res) sample_env = ''MCPSO''"
  by (simp add: MEMOS_CHANNEL_ID_def sample_env_def upper_mcpso)

lemma sample_legacy_channel: "legacy_MEMOS_CHANNEL (sample_runtime res) sample_env = ''MCPSO''"
  by (simp add: legacy_MEMOS_CHANNEL_def sample_env_def upper_mcpso)

lemma legacy_default_channel: "legacy_MEMOS_CHANNEL rt (e\<lparr>MEMOS_CHANNEL := None\<rparr>) = ''MODELSCOPE_REMOTE''"
  by (simp add: legacy_MEMOS_CHANNEL_def)

lemma sample_configured_user: "MEMOS_USER_ID sample_env = Some ''alice''"
  by (simp add: sample_env_def)

lemma sample_user_id: "actualUserId (sample_runtime res) sample_env ''alice'' = ''alice-MCPSO''"
  by (simp add: actualUserId_def MEMOS_CHANNEL_ID_def sample_env_def upper_mcpso)

lemma sample_timestamp: "format_datetime (sample_clock 0) = ''2026-11-02 08:05:00.000''"
  by code_simp

lemma sample_newMessages:
  "newMessages (sample_runtime res) 0 sample_messages =
     [JObj [(''role'', JStr ''user''), (''content'', JStr ''hello''),
            (''chat_time'', JStr ''2026-11-02 08:05:00.000'')],
      JObj [(''role'', JStr ''assistant''), (''content'', JStr ''hi''),
            (''chat_time'', JStr ''2026-11-02 08:04:59.120'')]]"
  by (simp add: sample_messages_def sample_message_def stamped_message_def falsy_def js_string_def
      generateChatTime_def sample_runtime_def sample_timestamp)

lemma sample_add_message:
  "snd (add_message (sample_runtime res) sample_env ''hello'' sample_messages) =
     [sample_add_message_call ''alice-MCPSO'']"
  by (simp add: add_message_def sample_guards snd_call_dispatcher sample_add_message_call_def
      sample_conversation_id sample_user_id sample_newMessages del: newMessages.simps)


lemma sample_delete_memory:
  "snd (delete_memory (sample_runtime res) sample_env [''m1'']) = [sample_delete_call]"
  by (simp add: delete_memory_def sample_guards snd_call_dispatcher sample_delete_call_def
      sample_user_id)

lemma sample_add_feedback:
  "snd (add_feedback (sample_runtime res) sample_env sample_feedback) = [sample_feedback_call]"
  by (simp add: add_feedback_def sample_guards snd_call_dispatcher sample_feedback_call_def
      sample_conversation_id sample_user_id sample_feedback_def js_string_None)

lemma sample_legacy_add_message:
  "snd (legacy_add_message (sample_runtime res) sample_env ''hello'' sample_messages) =
     [sample_add_message_call ''alice'']"
  by (simp add: legacy_add_message_def sample_legacy_guards snd_legacy_call_dispatcher
      sample_add_message_call_def sample_conversation_id sample_newMessages
      del: newMessages.simps)


lemma sample_legacy_get_message:
  "snd (legacy_get_message (sample_runtime res) sample_env ''hello'') = [sample_get_message_call]"
  by (simp add: legacy_get_message_def sample_legacy_guards snd_legacy_call_dispatcher
      sample_get_message_call_def sample_conversation_id)

section \<open>Missing API key\<close>

lemma guards_no_key: "falsy (MEMOS_API_KEY e) \<Longrightarrow> guards rt e = Inl (Error api_key_not_set)"
  by (simp add: guards_def falsy_def split: option.splits)

lemma legacy_guards_no_key:
  "falsy (MEMOS_API_KEY e) \<Longrightarrow> legacy_guards v rt e = Inl (Error api_key_not_set)"
  by (simp add: legacy_guards_def falsy_def split: option.splits)

lemma key_message_mentions_key: "sublist ''MEMOS_API_KEY'' api_key_not_set"
  by code_simp

text \<open>
  Claim C1. When no API key is configured (the variable is unset or empty), each of the
  four tools \<open>add_message\<close>, \<open>search_memory\<close>, \<open>delete_memory\<close> and \<open>add_feedback\<close> returns a
  response with the error flag set and a text containing \<^verbatim>\<open>MEMOS_API_KEY\<close>, and the
  dispatcher \<open>queryMemos\<close> is not called: the list of dispatcher calls is empty. The same
  holds for the three tools of the earlier variant.
\<close>

theorem missing_api_key_rejects_every_tool:
  assumes "falsy (MEMOS_API_KEY e)"
  shows "rejected_with ''MEMOS_API_KEY'' (add_message rt e conversation_first_message messages) \<and>
         rejected_with ''MEMOS_API_KEY'' (search_memory rt e query conversation_first_message memory_limit_number) \<and>
         rejected_with ''MEMOS_API_KEY'' (delete_memory rt e memory_ids) \<and>
         rejected_with ''MEMOS_API_KEY'' (add_feedback rt e a) \<and>
         rejected_with ''MEMOS_API_KEY'' (legacy_add_message rt e conversation_first_message messages) \<and>
         rejected_with ''MEMOS_API_KEY''
           (legacy_search_memory rt e query conversation_first_message memory_limit_number) \<and>
         rejected_with ''MEMOS_API_KEY'' (legacy_get_message rt e conversation_first_message)"
  using assms
  by (simp add: add_message_def search_memory_def delete_memory_def add_feedback_def
      legacy_add_message_def legacy_search_memory_def legacy_get_message_def
      guards_no_key legacy_guards_no_key rejected_failure key_message_mentions_key)

theorem missing_api_key_witness:
  "falsy (MEMOS_API_KEY (sample_env\<lparr>MEMOS_API_KEY := None\<rparr>)) \<and>
   rejected_with ''MEMOS_API_KEY''
     (add_message (sample_runtime ok_response) (sample_env\<lparr>MEMOS_API_KEY := None\<rparr>) ''hello'' sample_messages) \<and>
   rejected_with ''MEMOS_API_KEY''
     (search_memory (sample_runtime ok_response) (sample_env\<lparr>MEMOS_API_KEY := None\<rparr>) ''address'' ''hello'' (Some 3)) \<and>
   rejected_with ''MEMOS_API_KEY''
     (delete_memory (sample_runtime ok_response) (sample_env\<lparr>MEMOS_API_KEY := None\<rparr>) [''m1'']) \<and>
   rejected_with ''MEMOS_API_KEY''
     (add_feedback (sample_runtime ok_response) (sample_env\<lparr>MEMOS_API_KEY := None\<rparr>) sample_feedback) \<and>
   rejected_with ''MEMOS_API_KEY''
     (legacy_get_message (sample_runtime ok_response) (sample_env\<lparr>MEMOS_API_KEY := None\<rparr>) ''hello'')"
  using missing_api_key_rejects_every_tool
    [of "sample_env\<lparr>MEMOS_API_KEY := None\<rparr>" "sample_runtime ok_response" "''hello''"
        sample_messages "''address''" "Some 3" "[''m1'']" sample_feedback]
  by (simp add: falsy_def)

section \<open>The conversation identifier\<close>

text \<open>
  Claim C2. For every user identifier and first message, the derived conversation
  identifier is the MD5 digest of the user identifier, a newline and the first message:
  a string of 32 characters, each a lowercase hexadecimal digit. The derivation is a
  function of its two arguments, defined on all strings, the empty ones included: for an
  empty user identifier and an empty first message it is the digest of the newline alone.
\<close>

theorem conversation_id_is_md5_digest:
  "actualConversationId e userId firstMessage = Some (hashStr (userId @ [CHR 0x0A] @ firstMessage)) \<and>
   stringToMd5 (userId @ [CHR 0x0A] @ firstMessage) = hashStr (userId @ [CHR 0x0A] @ firstMessage) \<and>
   length (hashStr (userId @ [CHR 0x0A] @ firstMessage)) = 32 \<and>
   set (hashStr (userId @ [CHR 0x0A] @ firstMessage)) \<subseteq> set ''0123456789abcdef'' \<and>
   actualConversationId e [] [] = Some ''68b329da9893e34099c7d8ad5cb9c940''"
  using set_hashStr [of "userId @ [CHR 0x0A] @ firstMessage"] md5_of_newline
  by (simp add: actualConversationId_digest length_hashStr hexChars_def stringToMd5_def)

section \<open>The effective user identifier\<close>

lemma canonical_user_id:
  assumes "c \<in> set (snd (add_message rt e conversation_first_message messages))
             \<union> set (snd (search_memory rt e query conversation_first_message memory_limit_number))
             \<union> set (snd (delete_memory rt e memory_ids))
             \<union> set (snd (add_feedback rt e a))"
  shows "\<exists>uid. MEMOS_USER_ID e = Some uid \<and> outbound_user_id c = Some (JStr (actualUserId rt e uid))"
proof -
  consider "c \<in> set (snd (add_message rt e conversation_first_message messages))"
    | "c \<in> set (snd (search_memory rt e query conversation_first_message memory_limit_number))"
    | "c \<in> set (snd (delete_memory rt e memory_ids))"
    | "c \<in> set (snd (add_feedback rt e a))"
    using assms by blast
  then show ?thesis
  proof cases
    case 1
    from add_message_calls [OF 1] show ?thesis
      by (auto simp: outbound_user_id_def dest: guards_Inr)
  next
    case 2
    from search_memory_calls [OF 2] show ?thesis
      by (auto simp: outbound_user_id_def dest: guards_Inr)
  next
    case 3
    from delete_memory_calls [OF 3] show ?thesis
      by (auto simp: outbound_user_id_def dest: guards_Inr)
  next
    case 4
    from add_feedback_calls [OF 4] show ?thesis
      by (auto simp: outbound_user_id_def dest: guards_Inr)
  qed
qed

lemma legacy_user_id:
  assumes "c \<in> set (snd (legacy_add_message rt e conversation_first_message messages))
             \<union> set (snd (legacy_search_memory rt e query conversation_first_message memory_limit_number))
             \<union> set (snd (legacy_get_message rt e conversation_first_message))"
  shows "\<exists>uid. MEMOS_USER_ID e = Some uid \<and> outbound_user_id c = Some (JStr uid)"
proof -
  consider "c \<in> set (snd (legacy_add_message rt e conversation_first_message messages))"
    | "c \<in> set (snd (legacy_search_memory rt e query conversation_first_message memory_limit_number))"
    | "c \<in> set (snd (legacy_get_message rt e conversation_first_message))"
    using assms by blast
  then show ?thesis
  proof cases
    case 1
    from legacy_add_message_calls [OF 1] show ?thesis
      by (auto simp: outbound_user_id_def dest: legacy_guards_Inr)
  next
    case 2
    from legacy_search_memory_calls [OF 2] show ?thesis
      by (auto simp: outbound_user_id_def dest: legacy_guards_Inr)
  next
    case 3
    from legacy_get_message_calls [OF 3] show ?thesis
      by (auto simp: outbound_user_id_def dest: legacy_guards_Inr)
  qed
qed

text \<open>
  Claim C3, as stated, fails on the earlier variant of the adapter. With the channel
  \<^verbatim>\<open>mcpso\<close> configured, which is neither \<^verbatim>\<open>MEMOS\<close> nor that variant's default
  \<^verbatim>\<open>MODELSCOPE_REMOTE\<close>, its \<open>add_message\<close> dispatches the user identifier \<^verbatim>\<open>alice\<close> as
  configured, not \<^verbatim>\<open>alice-MCPSO\<close>.
\<close>

theorem effective_user_id_counterexample:
  "map outbound_user_id
       (snd (legacy_add_message (sample_runtime ok_response) sample_env ''hello'' sample_messages)) =
     [Some (JStr ''alice'')] \<and>
   MEMOS_USER_ID sample_env = Some ''alice'' \<and>
   legacy_MEMOS_CHANNEL (sample_runtime ok_response) sample_env = ''MCPSO'' \<and>
   legacy_MEMOS_CHANNEL (sample_runtime ok_response) sample_env \<noteq> ''MEMOS'' \<and>
   legacy_MEMOS_CHANNEL (sample_runtime ok_response) sample_env \<noteq> ''MODELSCOPE_REMOTE'' \<and>
   JStr ''alice'' \<noteq> JStr (''alice'' @ ''-'' @ legacy_MEMOS_CHANNEL (sample_runtime ok_response) sample_env)"
  by (simp add: sample_legacy_add_message sample_add_message_call_def outbound_user_id_def
      sample_legacy_channel sample_configured_user)

text \<open>
  Claim C3, amended. In the variant that derives an effective user identifier (the four
  tools of \<^verbatim>\<open>src/index.ts\<close>), every dispatched request carries the configured user
  identifier exactly when the channel tag is \<^verbatim>\<open>MEMOS\<close>, the default tag, and carries the
  configured identifier followed by \<^verbatim>\<open>-\<close> and the channel tag otherwise. In the earlier
  variant (three tools) every dispatched request carries the configured user identifier
  unchanged.
\<close>

theorem effective_user_id_by_variant:
  "(c \<in> set (snd (add_message rt e conversation_first_message messages))
       \<union> set (snd (search_memory rt e query conversation_first_message memory_limit_number))
       \<union> set (snd (delete_memory rt e memory_ids))
       \<union> set (snd (add_feedback rt e a)) \<longrightarrow>
     (\<exists>uid. MEMOS_USER_ID e = Some uid \<and>
        outbound_user_id c =
          Some (JStr (if MEMOS_CHANNEL_ID rt e = ''MEMOS'' then uid else uid @ ''-'' @ MEMOS_CHANNEL_ID rt e)) \<and>
        (outbound_user_id c = Some (JStr uid) \<longleftrightarrow> MEMOS_CHANNEL_ID rt e = ''MEMOS''))) \<and>
   (c' \<in> set (snd (legacy_add_message rt e conversation_first_message messages))
       \<union> set (snd (legacy_search_memory rt e query conversation_first_message memory_limit_number))
       \<union> set (snd (legacy_get_message rt e conversation_first_message)) \<longrightarrow>
     (\<exists>uid. MEMOS_USER_ID e = Some uid \<and> outbound_user_id c' = Some (JStr uid))) \<and>
   MEMOS_CHANNEL_ID rt (e\<lparr>MEMOS_CHANNEL := None\<rparr>) = ''MEMOS''"
proof (intro conjI impI)
  assume "c \<in> set (snd (add_message rt e conversation_first_message messages))
       \<union> set (snd (search_memory rt e query conversation_first_message memory_limit_number))
       \<union> set (snd (delete_memory rt e memory_ids))
       \<union> set (snd (add_feedback rt e a))"
  from canonical_user_id [OF this] obtain uid where
    u: "MEMOS_USER_ID e = Some uid" "outbound_user_id c = Some (JStr (actualUserId rt e uid))"
    by blast
  show "\<exists>uid. MEMOS_USER_ID e = Some uid \<and>
        outbound_user_id c =
          Some (JStr (if MEMOS_CHANNEL_ID rt e = ''MEMOS'' then uid else uid @ ''-'' @ MEMOS_CHANNEL_ID rt e)) \<and>
        (outbound_user_id c = Some (JStr uid) \<longleftrightarrow> MEMOS_CHANNEL_ID rt e = ''MEMOS'')"
    using u by (auto simp: actualUserId_def)
next
  assume "c' \<in> set (snd (legacy_add_message rt e conversation_first_message messages))
       \<union> set (snd (legacy_search_memory rt e query conversation_first_message memory_limit_number))
       \<union> set (snd (legacy_get_message rt e conversation_first_message))"
  from legacy_user_id [OF this]
  show "\<exists>uid. MEMOS_USER_ID e = Some uid \<and> outbound_user_id c' = Some (JStr uid)" .
next
  show "MEMOS_CHANNEL_ID rt (e\<lparr>MEMOS_CHANNEL := None\<rparr>) = ''MEMOS''"
    by (simp add: MEMOS_CHANNEL_ID_def)
qed

theorem effective_user_id_witness:
  "sample_delete_call
     \<in> set (snd (add_message (sample_runtime ok_response) sample_env ''hello'' sample_messages))
       \<union> set (snd (search_memory (sample_runtime ok_response) sample_env ''address'' ''hello'' None))
       \<union> set (snd (delete_memory (sample_runtime ok_response) sample_env [''m1'']))
       \<union> set (snd (add_feedback (sample_runtime ok_response) sample_env sample_feedback)) \<and>
   MEMOS_CHANNEL_ID (sample_runtime ok_response) sample_env = ''MCPSO'' \<and>
   outbound_user_id sample_delete_call = Some (JStr ''alice-MCPSO'') \<and>
   sample_get_message_call
     \<in> set (snd (legacy_add_message (sample_runtime ok_response) sample_env ''hello'' sample_messages))
       \<union> set (snd (legacy_search_memory (sample_runtime ok_response) sample_env ''address'' ''hello'' None))
       \<union> set (snd (legacy_get_message (sample_runtime ok_response) sample_env ''hello'')) \<and>
   outbound_user_id sample_get_message_call = Some (JStr ''alice'')"
  using effective_user_id_by_variant
      [of sample_delete_call "sample_runtime ok_response" sample_env "''hello''" sample_messages
          "''address''" None "[''m1'']" sample_feedback sample_get_message_call]
  by (simp add: sample_delete_memory sample_legacy_get_message sample_channel
      outbound_user_id_def sample_delete_call_def sample_get_message_call_def)

section \<open>A success response whose body is not JSON\<close>

text \<open>
  The two transport paths of \<open>queryMemos\<close> treat such a body differently. Through
  \<^verbatim>\<open>fetch\<close> the body is read by \<^verbatim>\<open>res.json()\<close> and the error of the parser is the
  outcome; through \<^verbatim>\<open>https.request\<close> the parser runs inside \<^verbatim>\<open>try\<close> and the text
  itself is the outcome.
\<close>

lemma fetch_path_strict:
  assumes "fetch rt = Some f" and "\<forall>req. f req = FetchResponse res" and "ok (status res)"
    and "body_text res = Inr answer" and "JSON_parse rt answer = Inl err"
  shows "fst (queryMemos rt e p b k) = Inl err"
  using assms by (simp add: queryMemos_def read_fetch_def)

lemma https_path_lenient:
  assumes "fetch rt = None" and "new_URL rt (MEMOS_BASE_URL e @ p) = Inr u"
    and "\<forall>req. https_request rt req = HttpsResponse res"
    and "statusCode res = Some sc" and "ok sc"
    and "JSON_parse rt (concat (chunks res)) = Inl err"
  shows "fst (queryMemos rt e p b k) = Inr (JStr (concat (chunks res)))"
  using assms by (simp add: queryMemos_def read_https_def ok_def Let_def)

text \<open>
  Claim C4 does not hold on the \<^verbatim>\<open>fetch\<close> path. The remote endpoint answers
  \<^verbatim>\<open>200 OK\<close> with the body \<^verbatim>\<open><html>busy</html>\<close>: with \<^verbatim>\<open>fetch\<close> present the dispatcher
  fails with the error of the parser and \<open>search_memory\<close> returns an error response; the
  same answer received through \<^verbatim>\<open>https.request\<close> makes the dispatcher return the text.
\<close>

theorem malformed_success_body_fails_through_fetch:
  "fst (queryMemos (sample_runtime malformed_response) sample_env ''/search/memory''
          [(''query'', JStr ''address'')] ''key'') =
     Inl (Error ''Unexpected token'') \<and>
   fst (search_memory (sample_runtime malformed_response) sample_env ''address'' ''hello'' None) =
     \<lparr>content_text = ''Error: Unexpected token'', structuredContent = None, isError = True\<rparr> \<and>
   fst (queryMemos (sample_runtime_https malformed_https_response) sample_env ''/search/memory''
          [(''query'', JStr ''address'')] ''key'') =
     Inr (JStr ''<html>busy</html>'')"
proof -
  have strict: "fst (queryMemos (sample_runtime malformed_response) sample_env p b k) =
                  Inl (Error ''Unexpected token'')" for p b k
    by (rule fetch_path_strict [where f = "\<lambda>req. FetchResponse malformed_response"
          and res = malformed_response and answer = "''<html>busy</html>''"])
       (simp_all add: sample_runtime_def malformed_response_def ok_def sample_parse_def)
  have lenient: "fst (queryMemos (sample_runtime_https malformed_https_response) sample_env p b k) =
                   Inr (JStr ''<html>busy</html>'')" for p b k
    using https_path_lenient
      [where rt = "sample_runtime_https malformed_https_response" and e = sample_env and p = p
         and u = "MEMOS_BASE_URL sample_env @ p" and res = malformed_https_response and sc = 200
         and err = "Error ''Unexpected token''" and b = b and k = k]
    by (simp add: sample_runtime_https_def malformed_https_response_def ok_def sample_parse_def)
  have handler: "fst (search_memory (sample_runtime malformed_response) sample_env ''address'' ''hello'' None) =
     \<lparr>content_text = ''Error: Unexpected token'', structuredContent = None, isError = True\<rparr>"
    by (simp add: search_memory_def sample_guards call_dispatcher_def strict failure_def)
  from strict lenient handler show ?thesis
    by simp
qed
section \<open>Channel validation\<close>

lemma known_channel_iff:
  "known_channel rt (e\<lparr>MEMOS_CHANNEL := Some tag\<rparr>) \<longleftrightarrow> toUpperCase rt tag \<in> set candidateChannelId"
  by (simp add: known_channel_def MEMOS_CHANNEL_ID_def)

lemma legacy_known_channel_iff:
  "legacy_known_channel rt (e\<lparr>MEMOS_CHANNEL := Some tag\<rparr>) \<longleftrightarrow>
     toUpperCase rt tag \<in> set legacy_candidateChannelId"
  by (simp add: legacy_known_channel_def legacy_MEMOS_CHANNEL_def)

text \<open>The message of the first guard that fails, the channel guard being the last.\<close>

lemma guards_unknown_channel:
  assumes "\<not> known_channel rt e"
  shows "guards rt e =
           Inl (Error (if falsy (MEMOS_API_KEY e) then api_key_not_set
                       else if falsy (MEMOS_USER_ID e) then user_id_not_set
                       else ''Unknown channel: '' @ MEMOS_CHANNEL_ID rt e))"
  using assms by (simp add: guards_def falsy_def split: option.splits)

lemma legacy_guards_unknown_channel:
  assumes "\<not> legacy_known_channel rt e"
  shows "legacy_guards v rt e =
           Inl (Error (if falsy (MEMOS_API_KEY e) then api_key_not_set
                       else if falsy (MEMOS_USER_ID e) then user_id_not_set
                       else ''Unknown channel: '' @ legacy_MEMOS_CHANNEL rt e @
                            (if v then '', candidates: '' @ join '', '' legacy_candidateChannelId
                             else [])))"
  using assms by (simp add: legacy_guards_def falsy_def split: option.splits)

lemma candidates_text:
  "join '', '' legacy_candidateChannelId =
     ''MODELSCOPE, MCPSO, MCPMARKETCN, MCPMARKETCOM, MEMOS, GITHUB, GLAMA, PULSEMCP, MCPSERVERS, LOBEHUB, MODELSCOPE_REMOTE''"
  by (simp add: legacy_candidateChannelId_def)

lemma unknown_channel_outcome:
  assumes "\<not> known_channel rt e"
    and "r \<in> {add_message rt e conversation_first_message messages,
               search_memory rt e query conversation_first_message memory_limit_number,
               delete_memory rt e memory_ids,
               add_feedback rt e a}"
  shows "r = (\<lparr>content_text =
                  (if falsy (MEMOS_API_KEY e) then
                     ''Error: MEMOS_API_KEY is not set, please set it in the environment variables or mcp.json file''
                   else if falsy (MEMOS_USER_ID e) then
                     ''Error: MEMOS_USER_ID is not set, please set it in the environment variables or mcp.json file''
                   else ''Error: Unknown channel: '' @ MEMOS_CHANNEL_ID rt e),
                structuredContent = None, isError = True\<rparr>, [])"
  using assms(2)
  by (auto simp: add_message_def search_memory_def delete_memory_def add_feedback_def
      guards_unknown_channel [OF assms(1)] failure_def api_key_not_set_def user_id_not_set_def)

lemma legacy_unknown_channel_verbose:
  assumes "\<not> legacy_known_channel rt e"
  shows "legacy_add_message rt e conversation_first_message messages =
           (\<lparr>content_text =
                (if falsy (MEMOS_API_KEY e) then
                   ''Error: MEMOS_API_KEY is not set, please set it in the environment variables or mcp.json file''
                 else if falsy (MEMOS_USER_ID e) then
                   ''Error: MEMOS_USER_ID is not set, please set it in the environment variables or mcp.json file''
                 else ''Error: Unknown channel: '' @ legacy_MEMOS_CHANNEL rt e @
                      '', candidates: MODELSCOPE, MCPSO, MCPMARKETCN, MCPMARKETCOM, MEMOS, GITHUB, GLAMA, PULSEMCP, MCPSERVERS, LOBEHUB, MODELSCOPE_REMOTE''),
              structuredContent = None, isError = True\<rparr>, [])"
  by (simp add: legacy_add_message_def legacy_guards_unknown_channel [OF assms] candidates_text
      failure_def api_key_not_set_def user_id_not_set_def)

lemma legacy_unknown_channel_outcome:
  assumes "\<not> legacy_known_channel rt e"
    and "r \<in> {legacy_search_memory rt e query conversation_first_message memory_limit_number,
               legacy_get_message rt e conversation_first_message}"
  shows "r = (\<lparr>content_text =
                  (if falsy (MEMOS_API_KEY e) then
                     ''Error: MEMOS_API_KEY is not set, please set it in the environment variables or mcp.json file''
                   else if falsy (MEMOS_USER_ID e) then
                     ''Error: MEMOS_USER_ID is not set, please set it in the environment variables or mcp.json file''
                   else ''Error: Unknown channel: '' @ legacy_MEMOS_CHANNEL rt e),
                structuredContent = None, isError = True\<rparr>, [])"
  using assms(2)
  by (auto simp: legacy_search_memory_def legacy_get_message_def
      legacy_guards_unknown_channel [OF assms(1)] failure_def api_key_not_set_def
      user_id_not_set_def)

lemma ascii_upper_foo: "ascii_toUpperCase ''foo'' = ''FOO''"
  by code_simp

lemma upper_foo: "toUpperCase (sample_runtime res) ''foo'' = ''FOO''"
  by (simp add: sample_runtime_def ascii_upper_foo)

lemma key_message_without_channel:
  "\<not> sublist ''FOO''
       ''Error: MEMOS_API_KEY is not set, please set it in the environment variables or mcp.json file'' \<and>
   \<not> sublist ''channel''
       ''Error: MEMOS_API_KEY is not set, please set it in the environment variables or mcp.json file''"
  by code_simp

text \<open>
  Claim C5, as stated, fails where the channel is outside the allow-list and no API key
  is configured: the invocation fails before any dispatcher call, but with the message
  of the API-key guard, which names neither the channel \<^verbatim>\<open>FOO\<close> nor any channel.
\<close>

theorem channel_validation_counterexample:
  "\<not> known_channel (sample_runtime ok_response) keyless_env \<and>
   MEMOS_CHANNEL_ID (sample_runtime ok_response) keyless_env = ''FOO'' \<and>
   add_message (sample_runtime ok_response) keyless_env ''hello'' sample_messages =
     (\<lparr>content_text =
         ''Error: MEMOS_API_KEY is not set, please set it in the environment variables or mcp.json file'',
       structuredContent = None, isError = True\<rparr>, []) \<and>
   \<not> sublist ''FOO''
       ''Error: MEMOS_API_KEY is not set, please set it in the environment variables or mcp.json file'' \<and>
   \<not> sublist ''channel''
       ''Error: MEMOS_API_KEY is not set, please set it in the environment variables or mcp.json file''"
  using key_message_without_channel
  by (simp add: known_channel_def MEMOS_CHANNEL_ID_def upper_foo candidateChannelId_def
      add_message_def guards_def failure_def api_key_not_set_def keyless_env_def)

text \<open>
  Claim C5, amended. The normalized tag is the configured tag in upper case, by the
  \<^verbatim>\<open>toUpperCase\<close> of the runtime. Channel validation succeeds exactly when the normalized
  tag is a member of the fixed allow-list (five tags in \<^verbatim>\<open>src/index.ts\<close>, eleven in the
  earlier variant). For a tag outside the allow-list every tool invocation returns,
  without any dispatcher call, a response with the error flag set, no structured content
  and the text of the first guard that fails: \<^verbatim>\<open>Error: MEMOS_API_KEY is not set, ...\<close> when
  no API key is configured; otherwise \<^verbatim>\<open>Error: MEMOS_USER_ID is not set, ...\<close> when no user
  identifier is configured; otherwise \<^verbatim>\<open>Error: Unknown channel: \<close> followed by the
  normalized tag, and in \<open>add_message\<close> of the earlier variant by \<^verbatim>\<open>, candidates: \<close> and the
  allow-list.
\<close>

theorem channel_validation:
  "MEMOS_CHANNEL_ID rt (e\<lparr>MEMOS_CHANNEL := Some tag\<rparr>) = toUpperCase rt tag \<and>
   legacy_MEMOS_CHANNEL rt (e\<lparr>MEMOS_CHANNEL := Some tag\<rparr>) = toUpperCase rt tag \<and>
   (known_channel rt (e\<lparr>MEMOS_CHANNEL := Some tag\<rparr>) \<longleftrightarrow>
      toUpperCase rt tag \<in> set [''MODELSCOPE'', ''MCPSO'', ''MCPMARKETCN'', ''MCPMARKETCOM'', ''MEMOS'']) \<and>
   (legacy_known_channel rt (e\<lparr>MEMOS_CHANNEL := Some tag\<rparr>) \<longleftrightarrow>
      toUpperCase rt tag \<in> set [''MODELSCOPE'', ''MCPSO'', ''MCPMARKETCN'', ''MCPMARKETCOM'', ''MEMOS'',
                                ''GITHUB'', ''GLAMA'', ''PULSEMCP'', ''MCPSERVERS'', ''LOBEHUB'',
                                ''MODELSCOPE_REMOTE'']) \<and>
   (\<not> known_channel rt e \<longrightarrow>
      (\<forall>r \<in> {add_message rt e conversation_first_message messages,
              search_memory rt e query conversation_first_message memory_limit_number,
              delete_memory rt e memory_ids,
              add_feedback rt e a}.
         r = (\<lparr>content_text =
                  (if falsy (MEMOS_API_KEY e) then
                     ''Error: MEMOS_API_KEY is not set, please set it in the environment variables or mcp.json file''
                   else if falsy (MEMOS_USER_ID e) then
                     ''Error: MEMOS_USER_ID is not set, please set it in the environment variables or mcp.json file''
                   else ''Error: Unknown channel: '' @ MEMOS_CHANNEL_ID rt e),
                structuredContent = None, isError = True\<rparr>, []))) \<and>
   (\<not> legacy_known_channel rt e \<longrightarrow>
      legacy_add_message rt e conversation_first_message messages =
        (\<lparr>content_text =
             (if falsy (MEMOS_API_KEY e) then
                ''Error: MEMOS_API_KEY is not set, please set it in the environment variables or mcp.json file''
              else if falsy (MEMOS_USER_ID e) then
                ''Error: MEMOS_USER_ID is not set, please set it in the environment variables or mcp.json file''
              else ''Error: Unknown channel: '' @ legacy_MEMOS_CHANNEL rt e @
                   '', candidates: MODELSCOPE, MCPSO, MCPMARKETCN, MCPMARKETCOM, MEMOS, GITHUB, GLAMA, PULSEMCP, MCPSERVERS, LOBEHUB, MODELSCOPE_REMOTE''),
           structuredContent = None, isError = True\<rparr>, []) \<and>
      (\<forall>r \<in> {legacy_search_memory rt e query conversation_first_message memory_limit_number,
              legacy_get_message rt e conversation_first_message}.
         r = (\<lparr>content_text =
                  (if falsy (MEMOS_API_KEY e) then
                     ''Error: MEMOS_API_KEY is not set, please set it in the environment variables or mcp.json file''
                   else if falsy (MEMOS_USER_ID e) then
                     ''Error: MEMOS_USER_ID is not set, please set it in the environment variables or mcp.json file''
                   else ''Error: Unknown channel: '' @ legacy_MEMOS_CHANNEL rt e),
                structuredContent = None, isError = True\<rparr>, [])))"
proof -
  have tag: "MEMOS_CHANNEL_ID rt (e\<lparr>MEMOS_CHANNEL := Some tag\<rparr>) = toUpperCase rt tag"
    by (simp add: MEMOS_CHANNEL_ID_def)
  have legacy_tag: "legacy_MEMOS_CHANNEL rt (e\<lparr>MEMOS_CHANNEL := Some tag\<rparr>) = toUpperCase rt tag"
    by (simp add: legacy_MEMOS_CHANNEL_def)
  have canonical_list: "known_channel rt (e\<lparr>MEMOS_CHANNEL := Some tag\<rparr>) \<longleftrightarrow>
      toUpperCase rt tag \<in> set [''MODELSCOPE'', ''MCPSO'', ''MCPMARKETCN'', ''MCPMARKETCOM'', ''MEMOS'']"
    unfolding known_channel_iff candidateChannelId_def ..
  have legacy_list: "legacy_known_channel rt (e\<lparr>MEMOS_CHANNEL := Some tag\<rparr>) \<longleftrightarrow>
      toUpperCase rt tag \<in> set [''MODELSCOPE'', ''MCPSO'', ''MCPMARKETCN'', ''MCPMARKETCOM'', ''MEMOS'',
                                ''GITHUB'', ''GLAMA'', ''PULSEMCP'', ''MCPSERVERS'', ''LOBEHUB'',
                                ''MODELSCOPE_REMOTE'']"
    unfolding legacy_known_channel_iff legacy_candidateChannelId_def ..
  have rejected: "\<not> known_channel rt e \<longrightarrow>
      (\<forall>r \<in> {add_message rt e conversation_first_message messages,
              search_memory rt e query conversation_first_message memory_limit_number,
              delete_memory rt e memory_ids,
              add_feedback rt e a}.
         r = (\<lparr>content_text =
                  (if falsy (MEMOS_API_KEY e) then
                     ''Error: MEMOS_API_KEY is not set, please set it in the environment variables or mcp.json file''
                   else if falsy (MEMOS_USER_ID e) then
                     ''Error: MEMOS_USER_ID is not set, please set it in the environment variables or mcp.json file''
                   else ''Error: Unknown channel: '' @ MEMOS_CHANNEL_ID rt e),
                structuredContent = None, isError = True\<rparr>, []))"
    by (intro impI ballI) (rule unknown_channel_outcome)
  have legacy_rejected: "\<not> legacy_known_channel rt e \<longrightarrow>
      legacy_add_message rt e conversation_first_message messages =
        (\<lparr>content_text =
             (if falsy (MEMOS_API_KEY e) then
                ''Error: MEMOS_API_KEY is not set, please set it in the environment variables or mcp.json file''
              else if falsy (MEMOS_USER_ID e) then
                ''Error: MEMOS_USER_ID is not set, please set it in the environment variables or mcp.json file''
              else ''Error: Unknown channel: '' @ legacy_MEMOS_CHANNEL rt e @
                   '', candidates: MODELSCOPE, MCPSO, MCPMARKETCN, MCPMARKETCOM, MEMOS, GITHUB, GLAMA, PULSEMCP, MCPSERVERS, LOBEHUB, MODELSCOPE_REMOTE''),
           structuredContent = None, isError = True\<rparr>, []) \<and>
      (\<forall>r \<in> {legacy_search_memory rt e query conversation_first_message memory_limit_number,
              legacy_get_message rt e conversation_first_message}.
         r = (\<lparr>content_text =
                  (if falsy (MEMOS_API_KEY e) then
                     ''Error: MEMOS_API_KEY is not set, please set it in the environment variables or mcp.json file''
                   else if falsy (MEMOS_USER_ID e) then
                     ''Error: MEMOS_USER_ID is not set, please set it in the environment variables or mcp.json file''
                   else ''Error: Unknown channel: '' @ legacy_MEMOS_CHANNEL rt e),
                structuredContent = None, isError = True\<rparr>, []))"
    by (intro impI conjI ballI)
       (rule legacy_unknown_channel_verbose, assumption, rule legacy_unknown_channel_outcome)
  show ?thesis
    by (rule conjI [OF tag conjI [OF legacy_tag conjI [OF canonical_list conjI [OF legacy_list
          conjI [OF rejected legacy_rejected]]]]])
qed

lemma sample_unknown_channel:
  "\<not> known_channel (sample_runtime res) (sample_env\<lparr>MEMOS_CHANNEL := Some ''foo''\<rparr>) \<and>
   \<not> legacy_known_channel (sample_runtime res) (sample_env\<lparr>MEMOS_CHANNEL := Some ''foo''\<rparr>) \<and>
   \<not> falsy (MEMOS_API_KEY (sample_env\<lparr>MEMOS_CHANNEL := Some ''foo''\<rparr>)) \<and>
   \<not> falsy (MEMOS_USER_ID (sample_env\<lparr>MEMOS_CHANNEL := Some ''foo''\<rparr>)) \<and>
   MEMOS_CHANNEL_ID (sample_runtime res) (sample_env\<lparr>MEMOS_CHANNEL := Some ''foo''\<rparr>) = ''FOO'' \<and>
   legacy_MEMOS_CHANNEL (sample_runtime res) (sample_env\<lparr>MEMOS_CHANNEL := Some ''foo''\<rparr>) = ''FOO''"
  by (simp add: known_channel_def legacy_known_channel_def MEMOS_CHANNEL_ID_def
      legacy_MEMOS_CHANNEL_def upper_foo candidateChannelId_def legacy_candidateChannelId_def
      falsy_def sample_env_def)

theorem channel_validation_witness:
  "known_channel (sample_runtime ok_response) (sample_env\<lparr>MEMOS_CHANNEL := Some ''mcpso''\<rparr>) \<and>
   toUpperCase (sample_runtime ok_response) ''mcpso''
     \<in> set [''MODELSCOPE'', ''MCPSO'', ''MCPMARKETCN'', ''MCPMARKETCOM'', ''MEMOS''] \<and>
   \<not> known_channel (sample_runtime ok_response) (sample_env\<lparr>MEMOS_CHANNEL := Some ''foo''\<rparr>) \<and>
   \<not> legacy_known_channel (sample_runtime ok_response) (sample_env\<lparr>MEMOS_CHANNEL := Some ''foo''\<rparr>) \<and>
   add_message (sample_runtime ok_response) (sample_env\<lparr>MEMOS_CHANNEL := Some ''foo''\<rparr>)
       ''hello'' sample_messages =
     (\<lparr>content_text = ''Error: Unknown channel: FOO'', structuredContent = None, isError = True\<rparr>, []) \<and>
   delete_memory (sample_runtime ok_response) (sample_env\<lparr>MEMOS_CHANNEL := Some ''foo''\<rparr>) [''m1''] =
     (\<lparr>content_text = ''Error: Unknown channel: FOO'', structuredContent = None, isError = True\<rparr>, []) \<and>
   legacy_add_message (sample_runtime ok_response) (sample_env\<lparr>MEMOS_CHANNEL := Some ''foo''\<rparr>)
       ''hello'' sample_messages =
     (\<lparr>content_text =
         ''Error: Unknown channel: FOO, candidates: MODELSCOPE, MCPSO, MCPMARKETCN, MCPMARKETCOM, MEMOS, GITHUB, GLAMA, PULSEMCP, MCPSERVERS, LOBEHUB, MODELSCOPE_REMOTE'',
       structuredContent = None, isError = True\<rparr>, []) \<and>
   legacy_get_message (sample_runtime ok_response) (sample_env\<lparr>MEMOS_CHANNEL := Some ''foo''\<rparr>)
       ''hello'' =
     (\<lparr>content_text = ''Error: Unknown channel: FOO'', structuredContent = None, isError = True\<rparr>, [])"
proof -
  note facts = sample_unknown_channel [of ok_response]
  have accepted: "toUpperCase (sample_runtime ok_response) ''mcpso''
     \<in> set [''MODELSCOPE'', ''MCPSO'', ''MCPMARKETCN'', ''MCPMARKETCOM'', ''MEMOS'']"
    by (simp add: upper_mcpso)
  from channel_validation
      [where e = "sample_env\<lparr>MEMOS_CHANNEL := Some ''foo''\<rparr>" and tag = "''mcpso''"
         and rt = "sample_runtime ok_response" and conversation_first_message = "''hello''"
         and messages = sample_messages and query = "''address''" and memory_limit_number = None
         and memory_ids = "[''m1'']" and a = sample_feedback]
    facts accepted
  show ?thesis
    by simp
qed

section \<open>A non-success status\<close>














section \<open>The default search limit\<close>



section \<open>Timestamps of messages\<close>

lemma digit_char_is_digit: "n < 10 \<Longrightarrow> is_digit (digit_char n)"
  by (simp add: is_digit_def digit_char_def)

lemma show_nat_digits: "list_all is_digit (show_nat n)"
proof (induction n rule: show_nat.induct)
  case (1 n)
  show ?case
  proof (cases "n < 10")
    case True
    then show ?thesis
      by (subst show_nat.simps) (simp add: digit_char_is_digit)
  next
    case False
    with 1 have "list_all is_digit (show_nat (n div 10))"
      by simp
    with False show ?thesis
      by (subst show_nat.simps) (simp add: digit_char_is_digit)
  qed
qed

lemma length_show_nat: "n < 10 ^ w \<Longrightarrow> 0 < w \<Longrightarrow> length (show_nat n) \<le> w"
proof (induction w arbitrary: n)
  case 0
  then show ?case by simp
next
  case (Suc w)
  show ?case
  proof (cases "n < 10")
    case True
    then show ?thesis
      by (subst show_nat.simps) simp
  next
    case False
    with Suc.prems have small: "n div 10 < 10 ^ w"
      by (simp add: less_mult_imp_div_less mult.commute)
    from False small have "0 < w"
      by (cases w) auto
    with Suc.IH small have "length (show_nat (n div 10)) \<le> w"
      by blast
    with False show ?thesis
      by (subst show_nat.simps) simp
  qed
qed

lemma length_padStart: "n < 10 ^ w \<Longrightarrow> 0 < w \<Longrightarrow> length (padStart w n) = w"
  using length_show_nat [of n w] by (simp add: padStart_def)

lemma zero_is_digit: "is_digit (CHR ''0'')"
  by (simp add: is_digit_def)

lemma padStart_digits: "list_all is_digit (padStart w n)"
  using zero_is_digit show_nat_digits [of n]
  by (auto simp: padStart_def list_all_iff)

lemma two_digits:
  assumes "n < 100"
  obtains a b where "padStart 2 n = [a, b]" "is_digit a" "is_digit b"
proof -
  from assms have "length (padStart 2 n) = 2"
    by (simp add: length_padStart)
  then obtain a b where "padStart 2 n = [a, b]"
    by (auto simp: numeral_2_eq_2 length_Suc_conv)
  with padStart_digits [of 2 n] that show ?thesis
    by simp
qed

lemma three_digits:
  assumes "n < 1000"
  obtains a b c where "padStart 3 n = [a, b, c]" "is_digit a" "is_digit b" "is_digit c"
proof -
  from assms have "length (padStart 3 n) = 3"
    by (simp add: length_padStart)
  then obtain a b c where "padStart 3 n = [a, b, c]"
    by (auto simp: numeral_3_eq_3 length_Suc_conv)
  with padStart_digits [of 3 n] that show ?thesis
    by simp
qed

lemma four_digits:
  assumes "n < 10000"
  obtains a b c d where "padStart 4 n = [a, b, c, d]"
    "is_digit a" "is_digit b" "is_digit c" "is_digit d"
proof -
  have four: "(4::nat) = Suc (Suc (Suc (Suc 0)))"
    by simp
  from assms have "length (padStart 4 n) = 4"
    by (simp add: length_padStart)
  then obtain a b c d where "padStart 4 n = [a, b, c, d]"
    by (auto simp: four length_Suc_conv)
  with padStart_digits [of 4 n] that show ?thesis
    by simp
qed

lemma timestamp_format_format_datetime:
  assumes "valid_datetime t"
  shows "timestamp_format (format_datetime t)"
proof -
  from assms have bounds: "year t < 10000" "month t < 100" "day t < 100" "hour t < 100"
    "minute t < 100" "second t < 100" "millisecond t < 1000"
    by (simp_all add: valid_datetime_def)
  from bounds(1) obtain y1 y2 y3 y4 where y: "padStart 4 (year t) = [y1, y2, y3, y4]"
    "is_digit y1" "is_digit y2" "is_digit y3" "is_digit y4"
    by (rule four_digits)
  from bounds(2) obtain m1 m2 where m: "padStart 2 (month t) = [m1, m2]" "is_digit m1" "is_digit m2"
    by (rule two_digits)
  from bounds(3) obtain d1 d2 where d: "padStart 2 (day t) = [d1, d2]" "is_digit d1" "is_digit d2"
    by (rule two_digits)
  from bounds(4) obtain h1 h2 where h: "padStart 2 (hour t) = [h1, h2]" "is_digit h1" "is_digit h2"
    by (rule two_digits)
  from bounds(5) obtain n1 n2 where n: "padStart 2 (minute t) = [n1, n2]" "is_digit n1" "is_digit n2"
    by (rule two_digits)
  from bounds(6) obtain s1 s2 where s: "padStart 2 (second t) = [s1, s2]" "is_digit s1" "is_digit s2"
    by (rule two_digits)
  from bounds(7) obtain f1 f2 f3 where f: "padStart 3 (millisecond t) = [f1, f2, f3]"
    "is_digit f1" "is_digit f2" "is_digit f3"
    by (rule three_digits)
  have "format_datetime t =
          [y1, y2, y3, y4, CHR ''-'', m1, m2, CHR ''-'', d1, d2, CHR '' '', h1, h2, CHR '':'',
           n1, n2, CHR '':'', s1, s2, CHR ''.'', f1, f2, f3]"
    by (simp add: format_datetime_def y(1) m(1) d(1) h(1) n(1) s(1) f(1))
  with y m d h n s f show ?thesis
    by (simp add: timestamp_format_def)
qed

lemma length_newMessages: "length (newMessages rt k ms) = length ms"
  by (induction ms arbitrary: k) auto

text \<open>
  The \<open>i\<close>-th mapped message. A generated timestamp comes from the clock reading whose
  number is the count of earlier messages that had no timestamp of their own.
\<close>

lemma newMessages_nth:
  assumes "i < length ms"
  shows "newMessages rt k ms ! i =
           JObj [(''role'', JStr (role (ms ! i))), (''content'', JStr (content (ms ! i))),
                 (''chat_time'',
                    if falsy (chat_time (ms ! i))
                    then JStr (generateChatTime rt
                                 (k + length (filter (\<lambda>m. falsy (chat_time m)) (take i ms))))
                    else js_string (chat_time (ms ! i)))]"
  using assms
proof (induction ms arbitrary: k i)
  case Nil
  then show ?case by simp
next
  case (Cons m ms)
  show ?case
  proof (cases i)
    case 0
    then show ?thesis by simp
  next
    case (Suc j)
    with Cons.prems have "j < length ms" by simp
    from Cons.IH [OF this] Suc show ?thesis
      by simp
  qed
qed

lemma js_string_supplied: "\<not> falsy v \<Longrightarrow> \<exists>t. v = Some t \<and> js_string v = JStr t"
  by (cases v) (simp_all add: falsy_def js_string_def)

text \<open>
  Claim C8. In every request that \<open>add_message\<close> dispatches, the field \<open>messages\<close> has one
  entry per message, with the role and the content of the message. For a message without
  a timestamp (\<^verbatim>\<open>chat_time\<close> omitted or empty) the entry carries a timestamp generated from
  a reading of the wall clock made while the request is handled, in the format
  \<^verbatim>\<open>YYYY-MM-DD HH:mm:ss.SSS\<close>; for a message with a non-empty timestamp the entry carries
  that timestamp unchanged. The clock yields calendar readings with a year of at most
  four digits.
\<close>

theorem missing_chat_time_is_generated:
  assumes "c \<in> set (snd (add_message rt e conversation_first_message messages))
             \<union> set (snd (legacy_add_message rt e conversation_first_message messages))"
    and "\<forall>k. valid_datetime (clock rt k)"
    and "i < length messages"
  shows "\<exists>out t. map_of (arg_body c) ''messages'' = Some (JArr out) \<and>
           length out = length messages \<and>
           out ! i = JObj [(''role'', JStr (role (messages ! i))),
                           (''content'', JStr (content (messages ! i))),
                           (''chat_time'', JStr t)] \<and>
           (falsy (chat_time (messages ! i)) \<longrightarrow>
              t = format_datetime
                    (clock rt (length (filter (\<lambda>m. falsy (chat_time m)) (take i messages)))) \<and>
              timestamp_format t) \<and>
           (\<not> falsy (chat_time (messages ! i)) \<longrightarrow> chat_time (messages ! i) = Some t)"
proof -
  from assms(1) have body: "map_of (arg_body c) ''messages'' = Some (JArr (newMessages rt 0 messages))"
    using add_message_calls [of c rt e conversation_first_message messages]
      legacy_add_message_calls [of c rt e conversation_first_message messages]
    by auto
  show ?thesis
  proof (cases "falsy (chat_time (messages ! i))")
    case True
    let ?t = "format_datetime (clock rt (length (filter (\<lambda>m. falsy (chat_time m)) (take i messages))))"
    from assms(2) have "timestamp_format ?t"
      by (simp add: timestamp_format_format_datetime)
    with body True newMessages_nth [OF assms(3), of rt 0] show ?thesis
      by (simp add: length_newMessages generateChatTime_def)
  next
    case False
    from js_string_supplied [OF False] obtain t where
      "chat_time (messages ! i) = Some t" "js_string (chat_time (messages ! i)) = JStr t"
      by blast
    with body False newMessages_nth [OF assms(3), of rt 0] show ?thesis
      by (simp add: length_newMessages)
  qed
qed

theorem missing_chat_time_witness:
  "sample_add_message_call ''alice-MCPSO''
     \<in> set (snd (add_message (sample_runtime ok_response) sample_env ''hello'' sample_messages))
       \<union> set (snd (legacy_add_message (sample_runtime ok_response) sample_env ''hello'' sample_messages)) \<and>
   (\<forall>k. valid_datetime (clock (sample_runtime ok_response) k)) \<and>
   0 < length sample_messages \<and> 1 < length sample_messages \<and>
   falsy (chat_time (sample_messages ! 0)) \<and>
   \<not> falsy (chat_time (sample_messages ! 1)) \<and>
   chat_time (sample_messages ! 1) = Some ''2026-11-02 08:04:59.120'' \<and>
   map_of (arg_body (sample_add_message_call ''alice-MCPSO'')) ''messages'' =
     Some (JArr [JObj [(''role'', JStr ''user''), (''content'', JStr ''hello''),
                       (''chat_time'', JStr ''2026-11-02 08:05:00.000'')],
                 JObj [(''role'', JStr ''assistant''), (''content'', JStr ''hi''),
                       (''chat_time'', JStr ''2026-11-02 08:04:59.120'')]]) \<and>
   timestamp_format ''2026-11-02 08:05:00.000''"
proof -
  have mem: "sample_add_message_call ''alice-MCPSO''
     \<in> set (snd (add_message (sample_runtime ok_response) sample_env ''hello'' sample_messages))
       \<union> set (snd (legacy_add_message (sample_runtime ok_response) sample_env ''hello'' sample_messages))"
    by (simp add: sample_add_message)
  have clk: "\<forall>k. valid_datetime (clock (sample_runtime ok_response) k)"
    by (simp add: sample_runtime_def sample_clock_def valid_datetime_def)
  have len: "0 < length sample_messages" "1 < length sample_messages"
    by (simp_all add: sample_messages_def)
  have kinds: "falsy (chat_time (sample_messages ! 0))" "\<not> falsy (chat_time (sample_messages ! 1))"
    "chat_time (sample_messages ! 1) = Some ''2026-11-02 08:04:59.120''"
    by (simp_all add: sample_messages_def sample_message_def stamped_message_def falsy_def)
  have body: "map_of (arg_body (sample_add_message_call ''alice-MCPSO'')) ''messages'' =
     Some (JArr [JObj [(''role'', JStr ''user''), (''content'', JStr ''hello''),
                       (''chat_time'', JStr ''2026-11-02 08:05:00.000'')],
                 JObj [(''role'', JStr ''assistant''), (''content'', JStr ''hi''),
                       (''chat_time'', JStr ''2026-11-02 08:04:59.120'')]])"
    by (simp add: sample_add_message_call_def)
  from missing_chat_time_is_generated [OF mem clk len(1)] obtain out t where
    "map_of (arg_body (sample_add_message_call ''alice-MCPSO'')) ''messages'' = Some (JArr out)"
    "out ! 0 = JObj [(''role'', JStr (role (sample_messages ! 0))),
                     (''content'', JStr (content (sample_messages ! 0))),
                     (''chat_time'', JStr t)]"
    "falsy (chat_time (sample_messages ! 0)) \<longrightarrow> timestamp_format t"
    by blast
  with body kinds(1) have "timestamp_format ''2026-11-02 08:05:00.000''"
    by auto
  with mem clk len kinds body show ?thesis
    by (simp only: simp_thms)
qed

section \<open>The environment fallback for the conversation identifier\<close>

lemma conversation_id_of_call:
  assumes "c \<in> set (snd (add_message rt e first messages))
             \<union> set (snd (search_memory rt e query first memory_limit_number))
             \<union> set (snd (add_feedback rt e (a\<lparr>fb_conversation_first_message := first\<rparr>)))
             \<union> set (snd (legacy_add_message rt e first messages))
             \<union> set (snd (legacy_search_memory rt e query first memory_limit_number))
             \<union> set (snd (legacy_get_message rt e first))"
  shows "\<exists>uid. MEMOS_USER_ID e = Some uid \<and>
           map_of (arg_body c) ''conversation_id'' = Some (JStr (stringToMd5 (uid @ [CHR 0x0A] @ first)))"
proof -
  consider "c \<in> set (snd (add_message rt e first messages))"
    | "c \<in> set (snd (search_memory rt e query first memory_limit_number))"
    | "c \<in> set (snd (add_feedback rt e (a\<lparr>fb_conversation_first_message := first\<rparr>)))"
    | "c \<in> set (snd (legacy_add_message rt e first messages))"
    | "c \<in> set (snd (legacy_search_memory rt e query first memory_limit_number))"
    | "c \<in> set (snd (legacy_get_message rt e first))"
    using assms by blast
  then show ?thesis
  proof cases
    case 1
    from add_message_calls [OF 1] show ?thesis
      by (auto simp: actualConversationId_digest js_string_def dest: guards_Inr)
  next
    case 2
    from search_memory_calls [OF 2] show ?thesis
      by (auto simp: actualConversationId_digest js_string_def dest: guards_Inr)
  next
    case 3
    from add_feedback_calls [OF 3] show ?thesis
      by (auto simp: actualConversationId_digest js_string_def dest: guards_Inr)
  next
    case 4
    from legacy_add_message_calls [OF 4] show ?thesis
      by (auto simp: actualConversationId_digest js_string_def dest: legacy_guards_Inr)
  next
    case 5
    from legacy_search_memory_calls [OF 5] show ?thesis
      by (auto simp: actualConversationId_digest js_string_def dest: legacy_guards_Inr)
  next
    case 6
    from legacy_get_message_calls [OF 6] show ?thesis
      by (auto simp: actualConversationId_digest js_string_def dest: legacy_guards_Inr)
  qed
qed

lemma actualConversationId_ignores_env:
  "actualConversationId (e\<lparr>MEMOS_CONVERSATION_ID := v\<rparr>) uid m = actualConversationId e uid m"
  by (simp add: actualConversationId_digest)

lemma guards_ignore_conversation_env: "guards rt (e\<lparr>MEMOS_CONVERSATION_ID := v\<rparr>) = guards rt e"
  by (simp add: guards_def known_channel_def MEMOS_CHANNEL_ID_def split: option.splits)

lemma actualUserId_ignores_conversation_env:
  "actualUserId rt (e\<lparr>MEMOS_CONVERSATION_ID := v\<rparr>) uid = actualUserId rt e uid"
  by (simp add: actualUserId_def MEMOS_CHANNEL_ID_def)

lemma queryMemos_ignores_conversation_env:
  "queryMemos rt (e\<lparr>MEMOS_CONVERSATION_ID := v\<rparr>) p b k = queryMemos rt e p b k"
  by (simp add: queryMemos_def MEMOS_BASE_URL_def)

lemma call_dispatcher_ignores_conversation_env:
  "call_dispatcher rt (e\<lparr>MEMOS_CONVERSATION_ID := v\<rparr>) c = call_dispatcher rt e c"
  by (simp add: call_dispatcher_def queryMemos_ignores_conversation_env)

text \<open>
  Claim C9. The digest returned by \<open>stringToMd5\<close> has 32 characters, so it is never empty
  and the alternative \<^verbatim>\<open>|| process.env.MEMOS_CONVERSATION_ID\<close> is never taken: in every
  request dispatched by a conversation-scoped handler (\<open>add_message\<close>, \<open>search_memory\<close>,
  \<open>add_feedback\<close>, and \<open>add_message\<close>, \<open>search_memory\<close>, \<open>get_message\<close> of the earlier variant)
  the field \<open>conversation_id\<close> is the digest of the configured user identifier, a newline
  and the first message, and the response and the request of each handler of
  \<^verbatim>\<open>src/index.ts\<close> are the same whatever the value of \<^verbatim>\<open>MEMOS_CONVERSATION_ID\<close>.
\<close>

theorem conversation_id_fallback_is_dead:
  "length (stringToMd5 s) = 32 \<and>
   add_message rt (e\<lparr>MEMOS_CONVERSATION_ID := v\<rparr>) first messages = add_message rt e first messages \<and>
   search_memory rt (e\<lparr>MEMOS_CONVERSATION_ID := v\<rparr>) query first memory_limit_number =
     search_memory rt e query first memory_limit_number \<and>
   add_feedback rt (e\<lparr>MEMOS_CONVERSATION_ID := v\<rparr>) a = add_feedback rt e a \<and>
   (c \<in> set (snd (add_message rt e first messages))
        \<union> set (snd (search_memory rt e query first memory_limit_number))
        \<union> set (snd (add_feedback rt e (a\<lparr>fb_conversation_first_message := first\<rparr>)))
        \<union> set (snd (legacy_add_message rt e first messages))
        \<union> set (snd (legacy_search_memory rt e query first memory_limit_number))
        \<union> set (snd (legacy_get_message rt e first)) \<longrightarrow>
      (\<exists>uid. MEMOS_USER_ID e = Some uid \<and>
         map_of (arg_body c) ''conversation_id'' = Some (JStr (stringToMd5 (uid @ [CHR 0x0A] @ first)))))"
proof (intro conjI impI)
  show "length (stringToMd5 s) = 32"
    by (simp add: stringToMd5_def length_hashStr)
  show "add_message rt (e\<lparr>MEMOS_CONVERSATION_ID := v\<rparr>) first messages = add_message rt e first messages"
    by (simp add: add_message_def guards_ignore_conversation_env actualConversationId_digest
        actualUserId_ignores_conversation_env call_dispatcher_ignores_conversation_env
        split: sum.splits prod.splits)
  show "search_memory rt (e\<lparr>MEMOS_CONVERSATION_ID := v\<rparr>) query first memory_limit_number =
     search_memory rt e query first memory_limit_number"
    by (simp add: search_memory_def guards_ignore_conversation_env actualConversationId_digest
        actualUserId_ignores_conversation_env call_dispatcher_ignores_conversation_env
        split: sum.splits prod.splits)
  show "add_feedback rt (e\<lparr>MEMOS_CONVERSATION_ID := v\<rparr>) a = add_feedback rt e a"
    by (simp add: add_feedback_def guards_ignore_conversation_env actualConversationId_digest
        actualUserId_ignores_conversation_env call_dispatcher_ignores_conversation_env
        split: sum.splits prod.splits)
next
  assume "c \<in> set (snd (add_message rt e first messages))
        \<union> set (snd (search_memory rt e query first memory_limit_number))
        \<union> set (snd (add_feedback rt e (a\<lparr>fb_conversation_first_message := first\<rparr>)))
        \<union> set (snd (legacy_add_message rt e first messages))
        \<union> set (snd (legacy_search_memory rt e query first memory_limit_number))
        \<union> set (snd (legacy_get_message rt e first))"
  from conversation_id_of_call [OF this]
  show "\<exists>uid. MEMOS_USER_ID e = Some uid \<and>
         map_of (arg_body c) ''conversation_id'' = Some (JStr (stringToMd5 (uid @ [CHR 0x0A] @ first)))" .
qed

theorem conversation_id_fallback_witness:
  "MEMOS_CONVERSATION_ID sample_env = Some ''fallback'' \<and>
   sample_feedback_call
     \<in> set (snd (add_message (sample_runtime ok_response) sample_env ''hello'' sample_messages))
       \<union> set (snd (search_memory (sample_runtime ok_response) sample_env ''address'' ''hello'' None))
       \<union> set (snd (add_feedback (sample_runtime ok_response) sample_env
                     (sample_feedback\<lparr>fb_conversation_first_message := ''hello''\<rparr>)))
       \<union> set (snd (legacy_add_message (sample_runtime ok_response) sample_env ''hello'' sample_messages))
       \<union> set (snd (legacy_search_memory (sample_runtime ok_response) sample_env ''address'' ''hello'' None))
       \<union> set (snd (legacy_get_message (sample_runtime ok_response) sample_env ''hello'')) \<and>
   map_of (arg_body sample_feedback_call) ''conversation_id'' =
     Some (JStr ''436fbc0a382e7fcf5ed6d8ca07772ac0'') \<and>
   stringToMd5 (''alice'' @ [CHR 0x0A] @ ''hello'') = ''436fbc0a382e7fcf5ed6d8ca07772ac0''"
proof -
  have same: "sample_feedback\<lparr>fb_conversation_first_message := ''hello''\<rparr> = sample_feedback"
    by (simp add: sample_feedback_def)
  have env: "MEMOS_CONVERSATION_ID sample_env = Some ''fallback''"
    by (simp add: sample_env_def)
  have mem: "sample_feedback_call
     \<in> set (snd (add_message (sample_runtime ok_response) sample_env ''hello'' sample_messages))
       \<union> set (snd (search_memory (sample_runtime ok_response) sample_env ''address'' ''hello'' None))
       \<union> set (snd (add_feedback (sample_runtime ok_response) sample_env
                     (sample_feedback\<lparr>fb_conversation_first_message := ''hello''\<rparr>)))
       \<union> set (snd (legacy_add_message (sample_runtime ok_response) sample_env ''hello'' sample_messages))
       \<union> set (snd (legacy_search_memory (sample_runtime ok_response) sample_env ''address'' ''hello'' None))
       \<union> set (snd (legacy_get_message (sample_runtime ok_response) sample_env ''hello''))"
    by (simp add: same sample_add_feedback)
  have digest: "stringToMd5 (''alice'' @ [CHR 0x0A] @ ''hello'') = ''436fbc0a382e7fcf5ed6d8ca07772ac0''"
    using md5_of_sample by (simp add: stringToMd5_def)
  from conversation_id_fallback_is_dead
        [where s = "''alice'' @ [CHR 0x0A] @ ''hello''" and rt = "sample_runtime ok_response"
           and e = sample_env and v = None and first = "''hello''" and messages = sample_messages
           and query = "''address''" and memory_limit_number = None and a = sample_feedback
           and c = sample_feedback_call]
    mem
  have "\<exists>uid. MEMOS_USER_ID sample_env = Some uid \<and>
          map_of (arg_body sample_feedback_call) ''conversation_id'' =
            Some (JStr (stringToMd5 (uid @ [CHR 0x0A] @ ''hello'')))"
    by blast
  then have "map_of (arg_body sample_feedback_call) ''conversation_id'' =
               Some (JStr ''436fbc0a382e7fcf5ed6d8ca07772ac0'')"
    using digest sample_configured_user by auto
  with env mem digest show ?thesis
    by blast
qed

section \<open>The provenance field of the payload\<close>















end
